theory Spec2Isabelle
  imports Main
begin

section \<open>The ClusterBlast report parser (parse\_antismash.py)\<close>

text \<open>
  Strings are Python \<open>str\<close> values, modelled as \<open>string\<close>: one \<open>char\<close> is one code
  point below 256 (\<open>CHR 0x1F\<close> is U+001F, \<open>CHR 0xA0\<close> is U+00A0). Code points from 256
  upwards are not represented. A missing value (Python \<open>None\<close>, pandas NaN) is \<open>None\<close>.
\<close>

subsection \<open>Character classes and string primitives\<close>

definition TAB :: char where "TAB = CHR 0x09"
definition LF :: char where "LF = CHR 0x0A"
definition CR :: char where "CR = CHR 0x0D"
definition DQUOTE :: char where "DQUOTE = CHR 0x22"
definition SQUOTE :: char where "SQUOTE = CHR 0x27"

text \<open>\<open>str.isspace\<close> on one character, which is also the class \<open>\s\<close> of \<open>re\<close> on \<open>str\<close>
  patterns: U+0009..U+000D, U+001C..U+001F, U+0020, U+0085, U+00A0.\<close>

definition whitespace_chars :: "char list" where
  "whitespace_chars =
     [CHR 0x09, CHR 0x0A, CHR 0x0B, CHR 0x0C, CHR 0x0D,
      CHR 0x1C, CHR 0x1D, CHR 0x1E, CHR 0x1F, CHR 0x20, CHR 0x85, CHR 0xA0]"

definition is_space :: "char \<Rightarrow> bool" where
  "is_space c = (c \<in> set whitespace_chars)"

text \<open>The class \<open>\d\<close> (the only decimal digits below 256 are the ASCII ones) and the
  ASCII ranges \<open>[A-Z]\<close>, \<open>[a-z]\<close>.\<close>

definition is_digit :: "char \<Rightarrow> bool" where
  "is_digit c = (c \<in> set ''0123456789'')"

definition is_upper :: "char \<Rightarrow> bool" where
  "is_upper c = (c \<in> set ''ABCDEFGHIJKLMNOPQRSTUVWXYZ'')"

definition is_lower :: "char \<Rightarrow> bool" where
  "is_lower c = (c \<in> set ''abcdefghijklmnopqrstuvwxyz'')"

text \<open>\<open>s.lstrip(chars)\<close>, \<open>s.rstrip(chars)\<close>, and \<open>s.strip()\<close> with no argument.\<close>

definition lstrip_chars :: "char list \<Rightarrow> string \<Rightarrow> string" where
  "lstrip_chars cs s = dropWhile (\<lambda>c. c \<in> set cs) s"

definition rstrip_chars :: "char list \<Rightarrow> string \<Rightarrow> string" where
  "rstrip_chars cs s = rev (dropWhile (\<lambda>c. c \<in> set cs) (rev s))"

definition strip :: "string \<Rightarrow> string" where
  "strip s = rev (dropWhile is_space (rev (dropWhile is_space s)))"

text \<open>\<open>s.startswith(p)\<close>.\<close>

definition startswith :: "string \<Rightarrow> string \<Rightarrow> bool" where
  "startswith s p = (take (length p) s = p)"

text \<open>\<open>s.replace(c, '')\<close> for a one-character \<open>c\<close>; \<open>re.sub(r'[\r\n\t]+', '', s)\<close>
  deletes every maximal run of CR, LF and TAB, that is, every such character.\<close>

definition remove_char :: "char \<Rightarrow> string \<Rightarrow> string" where
  "remove_char c s = filter (\<lambda>d. d \<noteq> c) s"

definition remove_crlftab :: "string \<Rightarrow> string" where
  "remove_crlftab s = filter (\<lambda>c. c \<noteq> CR \<and> c \<noteq> LF \<and> c \<noteq> TAB) s"

subsection \<open>normalize\_gene\_id\<close>

text \<open>The argument is always a \<open>str\<close> where the parser calls it, so the \<open>pd.isna\<close>
  branch is not taken.\<close>

definition normalize_gene_id :: "string \<Rightarrow> string" where
  "normalize_gene_id s =
     rstrip_chars '' ,;:''
       (remove_char SQUOTE (remove_char DQUOTE (remove_crlftab (strip s))))"

subsection \<open>Splitting and joining\<close>

text \<open>\<open>s.split(d)\<close> for a one-character separator: every occurrence separates, empty
  fields are kept, and the result is never empty (\<open>''.split('\t')\<close> is \<open>['']\<close>).\<close>

fun split_on :: "char \<Rightarrow> string \<Rightarrow> string list" where
  "split_on d [] = [[]]"
| "split_on d (c # cs) =
     (if c = d then [] # split_on d cs
      else (case split_on d cs of w # ws \<Rightarrow> (c # w) # ws | [] \<Rightarrow> [[c]]))"

text \<open>\<open>s.split()\<close>: the maximal runs of characters that are not whitespace.\<close>

function split_ws :: "string \<Rightarrow> string list" where
  "split_ws s =
     (case dropWhile is_space s of
        [] \<Rightarrow> []
      | c # cs \<Rightarrow> takeWhile (\<lambda>x. \<not> is_space x) (c # cs)
                 # split_ws (dropWhile (\<lambda>x. \<not> is_space x) cs))"
  by pat_completeness auto
termination
proof (relation "measure length")
  fix s :: string and c cs
  assume "dropWhile is_space s = c # cs"
  then have "length (c # cs) \<le> length s"
    by (metis length_dropWhile_le)
  moreover have "length (dropWhile (\<lambda>x. \<not> is_space x) cs) \<le> length cs"
    by (rule length_dropWhile_le)
  ultimately show "(dropWhile (\<lambda>x. \<not> is_space x) cs, s) \<in> measure length"
    by simp
qed simp

declare split_ws.simps [simp del]

text \<open>\<open>sep.join(xs)\<close>.\<close>

fun join :: "string \<Rightarrow> string list \<Rightarrow> string" where
  "join sep [] = []"
| "join sep [x] = x"
| "join sep (x # y # ys) = x @ sep @ join sep (y # ys)"

text \<open>\<open>s.split(sep, 1)[1]\<close>: what follows the first occurrence of \<open>sep\<close>; Python
  raises IndexError when there is none (\<open>None\<close> here).\<close>

fun after_first :: "string \<Rightarrow> string \<Rightarrow> string option" where
  "after_first sep [] = (if sep = [] then Some [] else None)"
| "after_first sep (c # cs) =
     (if startswith (c # cs) sep then Some (drop (length sep) (c # cs))
      else after_first sep cs)"

text \<open>\<open>text.splitlines()\<close>: the line boundaries below 256 are LF, VT, FF, CR, FS, GS,
  RS and NEL; CR LF counts once; the boundaries are dropped and no empty last line is
  added.\<close>

definition is_linebreak :: "char \<Rightarrow> bool" where
  "is_linebreak c =
     (c \<in> set [CHR 0x0A, CHR 0x0B, CHR 0x0C, CHR 0x0D, CHR 0x1C, CHR 0x1D, CHR 0x1E, CHR 0x85])"

function splitlines :: "string \<Rightarrow> string list" where
  "splitlines s =
     (if s = [] then []
      else (case dropWhile (\<lambda>c. \<not> is_linebreak c) s of
              [] \<Rightarrow> [s]
            | c # r \<Rightarrow> takeWhile (\<lambda>c. \<not> is_linebreak c) s
                      # splitlines (if c = CR \<and> startswith r [LF] then tl r else r)))"
  by pat_completeness auto
termination
proof (relation "measure length")
  fix s :: string and c r
  assume "dropWhile (\<lambda>c. \<not> is_linebreak c) s = c # r"
  then have "length (c # r) \<le> length s"
    by (metis length_dropWhile_le)
  then show "((if c = CR \<and> startswith r [LF] then tl r else r), s) \<in> measure length"
    by (cases r) auto
qed simp

declare splitlines.simps [simp del]

subsection \<open>The regular expressions of the parser\<close>

text \<open>The common prefix \<open>^\d+\.\s+\<close> of the three ordinal patterns, returning what
  follows it. \<open>\d+\<close> is followed by a dot and \<open>\s+\<close> by a letter, so each run is taken
  whole: backtracking into a shorter run leaves a digit (a whitespace character) where
  the dot (the letter) has to be.\<close>

definition ordinal_prefix :: "string \<Rightarrow> string option" where
  "ordinal_prefix s =
     (if takeWhile is_digit s = [] then None
      else (case dropWhile is_digit s of
              [] \<Rightarrow> None
            | c # r \<Rightarrow> if c \<noteq> CHR ''.'' \<or> takeWhile is_space r = [] then None
                       else Some (dropWhile is_space r)))"

text \<open>\<open>re.match(r'^\d+\.\s+BGC', s)\<close> as a truth value.\<close>

definition match_ordinal_bgc :: "string \<Rightarrow> bool" where
  "match_ordinal_bgc s =
     (case ordinal_prefix s of None \<Rightarrow> False | Some r \<Rightarrow> startswith r ''BGC'')"

text \<open>\<open>re.match(r'^\d+\.\s+([A-Z]{3}\d+[\d\.\-A-Za-z]*)', s)\<close>: group 1 when it matches.
  The group is three capitals, then the longest run of the class
  \<open>[\d\.\-A-Za-z]\<close>, which has to start with a digit.\<close>

definition is_id_char :: "char \<Rightarrow> bool" where
  "is_id_char c =
     (is_digit c \<or> c = CHR ''.'' \<or> c = CHR ''-'' \<or> is_upper c \<or> is_lower c)"

definition match_bgc :: "string \<Rightarrow> string option" where
  "match_bgc s =
     (case ordinal_prefix s of
        None \<Rightarrow> None
      | Some r \<Rightarrow>
          if length (take 3 r) = 3 \<and> list_all is_upper (take 3 r)
             \<and> takeWhile is_digit (drop 3 r) \<noteq> []
          then Some (take 3 r @ takeWhile is_id_char (drop 3 r))
          else None)"

text \<open>\<open>re.match(r'^\d+\.\s+(BGC[0-9\.\-]+)', s)\<close>: group 1 when it matches.\<close>

definition is_num_char :: "char \<Rightarrow> bool" where
  "is_num_char c = (is_digit c \<or> c = CHR ''.'' \<or> c = CHR ''-'')"

definition match_bgc2 :: "string \<Rightarrow> string option" where
  "match_bgc2 s =
     (case ordinal_prefix s of
        None \<Rightarrow> None
      | Some r \<Rightarrow>
          if startswith r ''BGC'' \<and> takeWhile is_num_char (drop 3 r) \<noteq> []
          then Some (''BGC'' @ takeWhile is_num_char (drop 3 r))
          else None)"

text \<open>\<open>re.sub(r'\..*$', '', s)\<close>. The dot of \<open>.*\<close> does not match LF and \<open>$\<close> holds at
  the end of the string or before a last LF, so a dot matches when LF occurs after it
  nowhere but as the last character; the match runs up to that LF or to the end.\<close>

fun sub_dot_suffix :: "string \<Rightarrow> string" where
  "sub_dot_suffix [] = []"
| "sub_dot_suffix (c # cs) =
     (if c = CHR ''.'' \<and> (dropWhile (\<lambda>x. x \<noteq> LF) cs = [] \<or> dropWhile (\<lambda>x. x \<noteq> LF) cs = [LF])
      then dropWhile (\<lambda>x. x \<noteq> LF) cs
      else c # sub_dot_suffix cs)"

subsection \<open>parse\_query\_cluster\_block\<close>

record query_rec =
  qr_gene :: string
  qr_start :: string
  qr_stop :: string
  qr_strand :: string
  qr_annotation :: "string option"

text \<open>The body of the loop for a line that is not a terminator: the tab split when it
  has at least 5 fields, else the whitespace split when it has at least 5 tokens, else
  the line is skipped.\<close>

definition query_row_of_line :: "string \<Rightarrow> query_rec option" where
  "query_row_of_line ln =
     (let parts = split_on TAB ln in
      if length parts \<ge> 5 then
        Some \<lparr> qr_gene = normalize_gene_id (parts ! 0),
               qr_start = strip (parts ! 1),
               qr_stop = strip (parts ! 2),
               qr_strand = strip (parts ! 3),
               qr_annotation = (if parts ! 4 \<noteq> [] then Some (strip (parts ! 4)) else None) \<rparr>
      else
        (let parts_ws = split_ws ln in
         if length parts_ws \<ge> 5 then
           Some \<lparr> qr_gene = normalize_gene_id (parts_ws ! 0),
                  qr_start = parts_ws ! 1,
                  qr_stop = parts_ws ! 2,
                  qr_strand = parts_ws ! 3,
                  qr_annotation = Some (join '' '' (drop 4 parts_ws)) \<rparr>
         else None))"

fun query_rows :: "string list \<Rightarrow> query_rec list" where
  "query_rows [] = []"
| "query_rows (ln0 # rest) =
     (let ln = rstrip_chars [LF] ln0 in
      if strip ln = [] \<or> startswith (strip ln) ''Significant hits:''
         \<or> startswith (strip ln) ''Details:''
      then []
      else (case query_row_of_line ln of
              Some r \<Rightarrow> r # query_rows rest
            | None \<Rightarrow> query_rows rest))"

definition renormalize_query :: "query_rec list \<Rightarrow> query_rec list" where
  "renormalize_query rows = map (\<lambda>r. r\<lparr>qr_gene := normalize_gene_id (qr_gene r)\<rparr>) rows"

definition parse_query_cluster_block :: "string list \<Rightarrow> query_rec list" where
  "parse_query_cluster_block lines = renormalize_query (query_rows lines)"

subsection \<open>parse\_file: the cluster blocks\<close>

text \<open>The indices of the lines that start a block: the lines whose stripped text starts
  with \<open>>>\<close>; the lines matching the ordinal pattern only when there is no such line.\<close>

definition marker_indices :: "(string \<Rightarrow> bool) \<Rightarrow> string list \<Rightarrow> nat list" where
  "marker_indices P lines = filter (\<lambda>i. P (strip (lines ! i))) [0..<length lines]"

definition primary_starts :: "string list \<Rightarrow> nat list" where
  "primary_starts lines = marker_indices (\<lambda>s. startswith s ''>>'') lines"

definition fallback_starts :: "string list \<Rightarrow> nat list" where
  "fallback_starts lines = marker_indices match_ordinal_bgc lines"

definition block_starts :: "string list \<Rightarrow> nat list" where
  "block_starts lines =
     (let idxs = primary_starts lines in
      if idxs = [] then fallback_starts lines else idxs)"

text \<open>Each start index with its end index: the next start, or the number of lines.\<close>

fun block_spans :: "nat list \<Rightarrow> nat \<Rightarrow> (nat \<times> nat) list" where
  "block_spans [] n = []"
| "block_spans [s] n = [(s, n)]"
| "block_spans (s # t # idxs) n = (s, t) # block_spans (t # idxs) n"

text \<open>The slice \<open>lines[start_idx:end_idx]\<close>.\<close>

definition slice :: "'a list \<Rightarrow> nat \<Rightarrow> nat \<Rightarrow> 'a list" where
  "slice xs i j = take (j - i) (drop i xs)"

definition cluster_blocks :: "string list \<Rightarrow> string list list" where
  "cluster_blocks lines =
     map (\<lambda>(i, j). slice lines i j) (block_spans (block_starts lines) (length lines))"

subsection \<open>parse\_file: the metadata of a block\<close>

record block_meta =
  bgc_id :: "string option"
  source_name :: "string option"
  bgc_type :: "string option"
  proteins_with_hits :: "string option"
  cum_score :: "string option"

definition no_meta :: block_meta where
  "no_meta = \<lparr> bgc_id = None, source_name = None, bgc_type = None,
               proteins_with_hits = None, cum_score = None \<rparr>"

text \<open>One pass of the loop over the header lines: the assignments in the order of the
  source. \<open>not bgc_id\<close> holds of \<open>None\<close> and of the empty string.\<close>

definition meta_step :: "block_meta \<Rightarrow> string \<Rightarrow> block_meta" where
  "meta_step m ln =
     (let s = strip ln;
          m1 = (case match_bgc s of Some g \<Rightarrow> m\<lparr>bgc_id := Some g\<rparr> | None \<Rightarrow> m);
          m2 = (if startswith s ''Source:''
                then m1\<lparr>source_name := map_option strip (after_first ''Source:'' s)\<rparr> else m1);
          m3 = (if startswith s ''Type:''
                then m2\<lparr>bgc_type := map_option strip (after_first ''Type:'' s)\<rparr> else m2);
          m4 = (if startswith s ''Number of proteins with BLAST hits to this cluster:''
                then m3\<lparr>proteins_with_hits := map_option strip (after_first '':'' s)\<rparr> else m3);
          m5 = (if startswith s ''Cumulative BLAST score:''
                then m4\<lparr>cum_score := map_option strip (after_first '':'' s)\<rparr> else m4)
      in (case match_bgc2 s of
            Some g \<Rightarrow> if bgc_id m5 = None \<or> bgc_id m5 = Some [] then m5\<lparr>bgc_id := Some g\<rparr> else m5
          | None \<Rightarrow> m5))"

definition block_metadata :: "string list \<Rightarrow> block_meta" where
  "block_metadata block = foldl meta_step no_meta (take 15 block)"

text \<open>The cleaned identifier: \<open>None\<close> when \<open>bgc_id\<close> is \<open>None\<close> or empty.\<close>

definition clean_bgc_id :: "string option \<Rightarrow> string option" where
  "clean_bgc_id b =
     (case b of None \<Rightarrow> None
      | Some i \<Rightarrow> if i = [] then None else Some (sub_dot_suffix i))"

subsection \<open>parse\_file: the hits of a block\<close>

record hit =
  BCG_identifier :: "string option"
  BCG_name :: "string option"
  BCG_type :: "string option"
  proteins_with_blast_hits :: "string option"
  cum_BLAST_Score :: "string option"
  query_gene :: string
  subject_gene :: string
  pct_identity :: string
  blast_score :: string
  pct_coverage :: string
  evalue :: string

definition mk_hit :: "block_meta \<Rightarrow> string \<Rightarrow> string \<Rightarrow> string \<Rightarrow> string \<Rightarrow> string \<Rightarrow> string \<Rightarrow> hit" where
  "mk_hit m q subj pct_id bscore pct_cov ev =
     \<lparr> BCG_identifier = clean_bgc_id (bgc_id m),
       BCG_name = source_name m,
       BCG_type = bgc_type m,
       proteins_with_blast_hits = proteins_with_hits m,
       cum_BLAST_Score = cum_score m,
       query_gene = q, subject_gene = subj, pct_identity = pct_id,
       blast_score = bscore, pct_coverage = pct_cov, evalue = ev \<rparr>"

text \<open>The two parses of a hit line, and the choice between them.\<close>

definition hit_of_tab_parts :: "block_meta \<Rightarrow> string list \<Rightarrow> hit" where
  "hit_of_tab_parts m parts =
     mk_hit m (normalize_gene_id (parts ! 0)) (strip (parts ! 1)) (strip (parts ! 2))
       (strip (parts ! 3)) (strip (parts ! 4)) (strip (parts ! 5))"

definition hit_of_ws_parts :: "block_meta \<Rightarrow> string list \<Rightarrow> hit" where
  "hit_of_ws_parts m parts_ws =
     mk_hit m (normalize_gene_id (parts_ws ! 0)) (parts_ws ! 1) (parts_ws ! 2)
       (parts_ws ! 3) (parts_ws ! 4) (parts_ws ! 5)"

definition hit_of_line :: "block_meta \<Rightarrow> string \<Rightarrow> hit option" where
  "hit_of_line m ln =
     (let parts = split_on TAB ln in
      if length parts \<ge> 6 then Some (hit_of_tab_parts m parts)
      else (let parts_ws = split_ws ln in
            if length parts_ws \<ge> 6 then Some (hit_of_ws_parts m parts_ws) else None))"

fun collect_hits :: "block_meta \<Rightarrow> string list \<Rightarrow> hit list" where
  "collect_hits m [] = []"
| "collect_hits m (ln # rest) =
     (if strip ln = [] \<or> startswith (strip ln) ''>>'' \<or> match_ordinal_bgc (strip ln)
      then []
      else (case hit_of_line m ln of
              Some h \<Rightarrow> h # collect_hits m rest
            | None \<Rightarrow> collect_hits m rest))"

text \<open>The lines after the first \<open>Table of Blast hits\<close> header of the block.\<close>

fun hits_table :: "string list \<Rightarrow> string list option" where
  "hits_table [] = None"
| "hits_table (ln # rest) =
     (if startswith (strip ln) ''Table of Blast hits'' then Some rest else hits_table rest)"

definition block_hits :: "string list \<Rightarrow> hit list" where
  "block_hits block =
     (case hits_table block of
        None \<Rightarrow> []
      | Some ls \<Rightarrow> collect_hits (block_metadata block) ls)"

subsection \<open>parse\_file\<close>

fun find_query_table :: "string list \<Rightarrow> query_rec list" where
  "find_query_table [] = []"
| "find_query_table (ln # rest) =
     (if startswith (strip ln)
           ''Table of genes, locations, strands and annotations of query cluster:''
      then parse_query_cluster_block rest
      else find_query_table rest)"

definition renormalize_hits :: "hit list \<Rightarrow> hit list" where
  "renormalize_hits hs = map (\<lambda>h. h\<lparr>query_gene := normalize_gene_id (query_gene h)\<rparr>) hs"

definition parse_lines :: "string list \<Rightarrow> query_rec list \<times> hit list" where
  "parse_lines lines =
     (renormalize_query (find_query_table lines),
      renormalize_hits (concat (map block_hits (cluster_blocks lines))))"

text \<open>\<open>parse_file\<close> on the text of the file.\<close>

definition parse_file :: "string \<Rightarrow> query_rec list \<times> hit list" where
  "parse_file text = parse_lines (splitlines text)"

subsection \<open>process\_sample: the region tag of a report file\<close>

text \<open>The group \<open>(_c\d+|_C\d+|_c\D*\d+)\<close> tried at the head of a string: the group and
  what follows it. The alternatives are tried in order; every run is taken whole, as
  \<open>.*\<close> after the group matches anything. \<open>\D\<close> also matches LF.\<close>

definition region_group :: "string \<Rightarrow> (string \<times> string) option" where
  "region_group s =
     (let r = drop 2 s; nd = takeWhile (\<lambda>c. \<not> is_digit c) r;
          r' = dropWhile (\<lambda>c. \<not> is_digit c) r
      in if startswith s ''_c'' \<and> takeWhile is_digit r \<noteq> []
         then Some (''_c'' @ takeWhile is_digit r, dropWhile is_digit r)
         else if startswith s ''_C'' \<and> takeWhile is_digit r \<noteq> []
         then Some (''_C'' @ takeWhile is_digit r, dropWhile is_digit r)
         else if startswith s ''_c'' \<and> takeWhile is_digit r' \<noteq> []
         then Some (''_c'' @ nd @ takeWhile is_digit r', dropWhile is_digit r')
         else None)"

text \<open>The lazy \<open>.*?\<close> before the group: the first position of the current line (up to
  the next LF, which the dot does not match) where the group matches.\<close>

fun find_region :: "string \<Rightarrow> (string \<times> string) option" where
  "find_region [] = None"
| "find_region (c # cs) =
     (case region_group (c # cs) of
        Some g \<Rightarrow> Some g
      | None \<Rightarrow> if c = LF then None else find_region cs)"

lemma region_group_shorter: "region_group s = Some (g, r) \<Longrightarrow> length r < length s"
proof -
  assume a: "region_group s = Some (g, r)"
  have d: "length (dropWhile P (drop 2 s)) \<le> length s - 2" for P :: "char \<Rightarrow> bool"
    using length_dropWhile_le [of P "drop 2 s"] by simp
  have dd: "length (dropWhile P (dropWhile Q (drop 2 s))) \<le> length s - 2"
    for P Q :: "char \<Rightarrow> bool"
    using length_dropWhile_le [of P "dropWhile Q (drop 2 s)"] d [of Q] by simp
  have two: "startswith s p \<Longrightarrow> length p = 2 \<Longrightarrow> 2 \<le> length s" for p
    unfolding startswith_def by (metis length_take min.cobounded1)
  from a have "(\<exists>P. r = dropWhile P (drop 2 s)) \<or> (\<exists>P Q. r = dropWhile P (dropWhile Q (drop 2 s)))"
    and "startswith s ''_c'' \<or> startswith s ''_C''"
    unfolding region_group_def Let_def by (auto split: if_splits)
  then have "length r \<le> length s - 2" and "2 \<le> length s"
    using d dd two [of "''_c''"] two [of "''_C''"] by auto
  then show ?thesis by simp
qed

lemma find_region_shorter: "find_region s = Some (g, r) \<Longrightarrow> length r < length s"
proof (induction s)
  case Nil
  then show ?case by simp
next
  case (Cons c cs)
  show ?case
  proof (cases "region_group (c # cs)")
    case None
    with Cons show ?thesis by (auto split: if_splits)
  next
    case (Some a)
    with Cons.prems have "region_group (c # cs) = Some (g, r)" by simp
    then show ?thesis by (rule region_group_shorter)
  qed
qed

text \<open>\<open>re.sub(r'.*?(_c\d+|_C\d+|_c\D*\d+).*', r'\1', s)\<close>: every match, from its first
  character to the end of the line the group ends in, is replaced by its group; a line
  without a match is copied.\<close>

function region_sub :: "string \<Rightarrow> string" where
  "region_sub s =
     (if s = [] then []
      else (case find_region s of
              Some (g, r) \<Rightarrow> g @ region_sub (dropWhile (\<lambda>c. c \<noteq> LF) r)
            | None \<Rightarrow>
                (case dropWhile (\<lambda>c. c \<noteq> LF) s of
                   [] \<Rightarrow> s
                 | c # r \<Rightarrow> takeWhile (\<lambda>c. c \<noteq> LF) s @ c # region_sub r)))"
  by pat_completeness auto
termination
proof (relation "measure length")
  fix s :: string and g r x
  assume "find_region s = Some x" and "(g, r) = x"
  then have "length r < length s"
    using find_region_shorter [of s g r] by simp
  moreover have "length (dropWhile (\<lambda>c. c \<noteq> LF) r) \<le> length r"
    by (rule length_dropWhile_le)
  ultimately show "(dropWhile (\<lambda>c. c \<noteq> LF) r, s) \<in> measure length"
    by simp
next
  fix s :: string and c r
  assume "dropWhile (\<lambda>c. c \<noteq> LF) s = c # r"
  then have "length (c # r) \<le> length s"
    by (metis length_dropWhile_le)
  then show "(r, s) \<in> measure length"
    by simp
qed simp

declare region_sub.simps [simp del]

text \<open>\<open>region_clean\<close>: the leading underscores of the region are stripped.\<close>

definition region_clean :: "string \<Rightarrow> string" where
  "region_clean fname =
     (let region = region_sub fname in
      if region \<noteq> [] then lstrip_chars ''_'' region else [])"

subsection \<open>process\_sample: merge and output of one report file\<close>

text \<open>\<open>drop_duplicates(subset=["query_gene"])\<close>: the first row of every gene id.\<close>

fun drop_duplicates_seen :: "string list \<Rightarrow> query_rec list \<Rightarrow> query_rec list" where
  "drop_duplicates_seen seen [] = []"
| "drop_duplicates_seen seen (r # rs) =
     (if qr_gene r \<in> set seen then drop_duplicates_seen seen rs
      else r # drop_duplicates_seen (qr_gene r # seen) rs)"

definition drop_duplicates :: "query_rec list \<Rightarrow> query_rec list" where
  "drop_duplicates rows = drop_duplicates_seen [] rows"

datatype merge_ind = left_only | right_only | both

record merged_row =
  m_hit :: hit
  region :: string
  start :: "string option"
  stop :: "string option"
  strand :: "string option"
  annotation :: "string option"
  merge_indicator :: merge_ind

text \<open>\<open>pd.merge(hits_df, query_sub, on="query_gene", how="left", indicator=True)\<close>:
  in the order of the hits, one row for every query row with the hit's gene id, and one
  row with empty query columns when there is none.\<close>

definition merge_hit :: "string \<Rightarrow> query_rec list \<Rightarrow> hit \<Rightarrow> merged_row list" where
  "merge_hit reg query_sub h =
     (case filter (\<lambda>q. qr_gene q = query_gene h) query_sub of
        [] \<Rightarrow> [\<lparr> m_hit = h, region = reg, start = None, stop = None, strand = None,
                  annotation = None, merge_indicator = left_only \<rparr>]
      | ms \<Rightarrow> map (\<lambda>q. \<lparr> m_hit = h, region = reg, start = Some (qr_start q),
                          stop = Some (qr_stop q), strand = Some (qr_strand q),
                          annotation = qr_annotation q, merge_indicator = both \<rparr>) ms)"

definition merge_left :: "string \<Rightarrow> hit list \<Rightarrow> query_rec list \<Rightarrow> merged_row list" where
  "merge_left reg hits query_sub = concat (map (merge_hit reg query_sub) hits)"

text \<open>A written file: its name in the output directory of the sample, its header line
  and its rows, as \<open>to_csv(path, sep="\t", index=False)\<close> writes the columns of the
  data frame.\<close>

record out_file =
  of_name :: string
  of_columns :: "string list"
  of_rows :: "string option list list"

definition result_columns :: "string list" where
  "result_columns =
     [''BCG_identifier'', ''BCG_name'', ''BCG_type'', ''proteins_with_blast_hits'',
      ''cum_BLAST_Score'', ''query_gene'', ''subject_gene'', ''pct_identity'',
      ''blast_score'', ''pct_coverage'', ''evalue'', ''region'',
      ''start'', ''stop'', ''strand'', ''annotation'']"

definition result_cells :: "merged_row \<Rightarrow> string option list" where
  "result_cells r =
     [BCG_identifier (m_hit r), BCG_name (m_hit r), BCG_type (m_hit r),
      proteins_with_blast_hits (m_hit r), cum_BLAST_Score (m_hit r),
      Some (query_gene (m_hit r)), Some (subject_gene (m_hit r)),
      Some (pct_identity (m_hit r)), Some (blast_score (m_hit r)),
      Some (pct_coverage (m_hit r)), Some (evalue (m_hit r)), Some (region r),
      start r, stop r, strand r, annotation r]"

fun merge_ind_name :: "merge_ind \<Rightarrow> string" where
  "merge_ind_name left_only = ''left_only''"
| "merge_ind_name right_only = ''right_only''"
| "merge_ind_name both = ''both''"

text \<open>The data frame \<open>merged\<close> before \<open>drop(columns=["_merge"])\<close>.\<close>

definition merged_columns :: "string list" where
  "merged_columns = result_columns @ [''_merge'']"

definition merged_cells :: "merged_row \<Rightarrow> string option list" where
  "merged_cells r = result_cells r @ [Some (merge_ind_name (merge_indicator r))]"

text \<open>The body of the loop over the report files of a sample, for the file named
  \<open>fname\<close> with the given text. \<open>query_sub\<close> is the query table as it is merged:
  the duplicates are dropped first, then the gene ids are normalised once more.
  \<open>merged_of_file\<close> is the data frame \<open>merged\<close>, and \<open>process_txt\<close> lists the files
  written, in the order they are written: the unmatched rows, with the indicator column
  still in place, then the results. Nothing is written when no hit was parsed.\<close>

definition query_sub :: "string \<Rightarrow> query_rec list" where
  "query_sub text = renormalize_query (drop_duplicates (fst (parse_file text)))"

definition merged_of_file :: "string \<Rightarrow> string \<Rightarrow> merged_row list" where
  "merged_of_file fname text =
     merge_left (region_clean fname) (renormalize_hits (snd (parse_file text)))
       (query_sub text)"

definition process_txt :: "string \<Rightarrow> string \<Rightarrow> out_file list" where
  "process_txt fname text =
     (if snd (parse_file text) = [] then []
      else
        (let merged = merged_of_file fname text;
             unmatched = filter (\<lambda>r. merge_indicator r = left_only) merged
         in (if unmatched \<noteq> []
             then [\<lparr> of_name = fname @ ''.unmatched_rows.csv'',
                      of_columns = merged_columns,
                      of_rows = map merged_cells unmatched \<rparr>]
             else [])
            @ [\<lparr> of_name = fname @ ''.results.tsv'',
                   of_columns = result_columns,
                   of_rows = map result_cells merged \<rparr>]))"

subsection \<open>Auxiliary notions and example inputs\<close>

text \<open>An identifier as the two identifier patterns return it: not empty and without LF.\<close>

definition id_ok :: "string option \<Rightarrow> bool" where
  "id_ok b = (case b of None \<Rightarrow> True | Some i \<Rightarrow> i \<noteq> [] \<and> LF \<notin> set i)"

definition header_block :: "string list" where
  "header_block =
     [''>>'', ''1. BGC0001089.5'', ''Source: bacillaene'', ''Type: NRPS'',
      ''Table of Blast hits (query gene, subject gene, %identity, blast score):'']"

definition tabbed_hit_line :: string where
  "tabbed_hit_line =
     ''gene 1'' @ [TAB] @ ''subj x'' @ [TAB] @ ''95 0'' @ [TAB] @ ''300'' @ [TAB] @ ''88''
       @ [TAB] @ ''1e-20 z''"

definition spaced_line :: string where
  "spaced_line = ''gene1 subj1 95.0 300 88.0 1e-20 extra more''"

definition segmented_report :: "string list" where
  "segmented_report =
     [''header'', ''>>'', ''1. BGC0000001'', ''Source: a'', '' >> '', ''2. BGC0000002'']"

definition ordinal_report :: "string list" where
  "ordinal_report = [''header'', ''1. BGC0000001'', ''Source: a'', ''2. BGC0000002'']"

definition unmarked_report :: "string list" where
  "unmarked_report = [''header'', ''Source: a'']"

text \<open>A header with all five fields, a terminator line with six tab fields, a line of
  the query table without tabs, and two reports around the lines above.\<close>

definition ordinal_tab_line :: string where
  "ordinal_tab_line =
     ''1. BGC5'' @ [TAB] @ ''b'' @ [TAB] @ ''c'' @ [TAB] @ ''d'' @ [TAB] @ ''e'' @ [TAB] @ ''f''"

definition spaced_query_line :: string where
  "spaced_query_line = ''gene1 100 200 + putative ABC transporter''"

definition full_header_block :: "string list" where
  "full_header_block =
     [''>>'', ''1. BGC0001089.5'', ''Source: bacillaene'', ''Type: NRPS'',
      ''Number of proteins with BLAST hits to this cluster: 3'',
      ''Cumulative BLAST score: 1200'']"

definition tabbed_report :: string where
  "tabbed_report =
     ''>>'' @ [LF] @ ''1. BGC0001089.5'' @ [LF] @ ''Source: bacillaene'' @ [LF]
     @ ''Type: NRPS'' @ [LF]
     @ ''Number of proteins with BLAST hits to this cluster: 3'' @ [LF]
     @ ''Cumulative BLAST score: 1200'' @ [LF]
     @ ''Table of Blast hits (query gene, subject gene, %identity, blast score):'' @ [LF]
     @ tabbed_hit_line @ [LF]"

definition spaced_report :: string where
  "spaced_report =
     ''Table of genes, locations, strands and annotations of query cluster:'' @ [LF]
     @ ''gene1 100 200 + putative ABC transporter'' @ [LF] @ [LF]
     @ ''>>'' @ [LF] @ ''1. BGC0001089.5'' @ [LF] @ ''Source: bacillaene'' @ [LF]
     @ ''Type: NRPS'' @ [LF]
     @ ''Number of proteins with BLAST hits to this cluster: 3'' @ [LF]
     @ ''Cumulative BLAST score: 1200'' @ [LF]
     @ ''Table of Blast hits (query gene, subject gene, %identity, blast score):'' @ [LF]
     @ spaced_line @ [LF]"

text \<open>A text with a hits table and no block marker.\<close>

definition markerless_text :: string where
  "markerless_text =
     ''notes'' @ [LF] @ ''Table of Blast hits'' @ [LF]
       @ ''a'' @ [TAB] @ ''b'' @ [TAB] @ ''c'' @ [TAB] @ ''d'' @ [TAB] @ ''e'' @ [TAB] @ ''f''"

text \<open>Whether the group of the region pattern matches somewhere in a name.\<close>

definition has_region_pattern :: "string \<Rightarrow> bool" where
  "has_region_pattern s = list_ex (\<lambda>i. region_group (drop i s) \<noteq> None) [0..<length s]"

text \<open>The first and the last element of a list of lines for which a matcher returns a
  value, and the value of a labelled header line: the stripped text after the label, for
  a line whose stripped text starts with the label.\<close>

fun first_match :: "('a \<Rightarrow> 'b option) \<Rightarrow> 'a list \<Rightarrow> 'b option" where
  "first_match f [] = None"
| "first_match f (x # xs) = (case f x of Some v \<Rightarrow> Some v | None \<Rightarrow> first_match f xs)"

definition last_match :: "('a \<Rightarrow> 'b option) \<Rightarrow> 'a list \<Rightarrow> 'b option" where
  "last_match f xs = first_match f (rev xs)"

definition label_value :: "string \<Rightarrow> string \<Rightarrow> string option" where
  "label_value label ln =
     (if startswith (strip ln) label then Some (strip (drop (length label) (strip ln)))
      else None)"

text \<open>The rows of the merged table without a query-side match, and whether a file of a
  given name is among the files written.\<close>

definition unmatched_rows :: "string \<Rightarrow> string \<Rightarrow> merged_row list" where
  "unmatched_rows fname text =
     filter (\<lambda>r. merge_indicator r = left_only) (merged_of_file fname text)"

definition file_written :: "string \<Rightarrow> out_file list \<Rightarrow> bool" where
  "file_written name fs = list_ex (\<lambda>f. of_name f = name) fs"

text \<open>A block whose header lines occur twice; a block whose identifier lines match the
  second identifier pattern only; a block whose only \<open>Source:\<close> line is its 16th line.\<close>

definition repeated_header_block :: "string list" where
  "repeated_header_block =
     [''>>'', ''1. BGC0000001'', ''Source: first'', ''Type: NRPS'',
      ''Number of proteins with BLAST hits to this cluster: 3'',
      ''Cumulative BLAST score: 10'',
      ''2. BGC0000002'', ''Source: second'', ''Type: PKS'',
      ''Number of proteins with BLAST hits to this cluster: 7'',
      ''Cumulative BLAST score: 20'']"

definition fallback_id_block :: "string list" where
  "fallback_id_block = [''>>'', ''1. BGC-7'', ''2. BGC-8'']"

definition late_source_block :: "string list" where
  "late_source_block = ''>>'' # replicate 14 ''filler'' @ [''Source: late'']"

text \<open>A report with one query gene and two hits, the second of a gene that is not in
  the query table.\<close>

definition sample_report :: string where
  "sample_report =
     ''Table of genes, locations, strands and annotations of query cluster:'' @ [LF]
     @ ''geneA'' @ [TAB] @ ''100'' @ [TAB] @ ''200'' @ [TAB] @ ''+'' @ [TAB] @ ''kinase'' @ [LF]
     @ [LF]
     @ ''>>'' @ [LF]
     @ ''1. BGC0001089.5'' @ [LF]
     @ ''Source: bacillaene'' @ [LF]
     @ ''Type: NRPS'' @ [LF]
     @ ''Table of Blast hits (query gene, subject gene, %identity, blast score):'' @ [LF]
     @ ''geneA'' @ [TAB] @ ''subjB'' @ [TAB] @ ''95.0'' @ [TAB] @ ''300'' @ [TAB] @ ''88.0''
       @ [TAB] @ ''1e-20'' @ [LF]
     @ ''geneX'' @ [TAB] @ ''subjC'' @ [TAB] @ ''91.0'' @ [TAB] @ ''250'' @ [TAB] @ ''70.0''
       @ [TAB] @ ''1e-10'' @ [LF]"

text \<open>A report whose query table has the gene ids \<open>a<US>,<US>,<US>,\<close> and \<open>a\<close>, where
  \<open><US>\<close> is U+001F, and one hit of the gene \<open>a\<close>.\<close>

definition duplicate_key_report :: string where
  "duplicate_key_report =
     ''Table of genes, locations, strands and annotations of query cluster:'' @ [LF]
     @ ''a'' @ [CHR 0x1F] @ '','' @ [CHR 0x1F] @ '','' @ [CHR 0x1F] @ '',''
       @ [TAB] @ ''1'' @ [TAB] @ ''2'' @ [TAB] @ ''+'' @ [TAB] @ ''kinase'' @ [LF]
     @ ''a'' @ [TAB] @ ''5'' @ [TAB] @ ''6'' @ [TAB] @ ''-'' @ [TAB] @ ''ligase'' @ [LF]
     @ [LF]
     @ ''>>'' @ [LF]
     @ ''1. BGC0000001'' @ [LF]
     @ ''Table of Blast hits (query gene, subject gene, %identity, blast score):'' @ [LF]
     @ ''a'' @ [TAB] @ ''subjB'' @ [TAB] @ ''95.0'' @ [TAB] @ ''300'' @ [TAB] @ ''88.0''
       @ [TAB] @ ''1e-20'' @ [LF]"

section \<open>Properties\<close>

subsection \<open>Segmentation of a report into blocks\<close>

lemma marker_indices_set:
  "set (marker_indices P lines) = {i. i < length lines \<and> P (strip (lines ! i))}"
  by (auto simp: marker_indices_def)

lemma marker_indices_sorted: "sorted_wrt (<) (marker_indices P lines)"
  unfolding marker_indices_def by (rule sorted_wrt_filter) simp

lemma block_starts_sorted: "sorted_wrt (<) (block_starts lines)"
  by (simp add: block_starts_def Let_def primary_starts_def fallback_starts_def marker_indices_sorted)

lemma block_starts_bound: "i \<in> set (block_starts lines) \<Longrightarrow> i < length lines"
  by (auto simp: block_starts_def Let_def primary_starts_def fallback_starts_def marker_indices_set
      split: if_splits)

lemma block_spans_fst: "map fst (block_spans idxs n) = idxs"
  by (induction idxs n rule: block_spans.induct) simp_all

lemma block_spans_snd:
  "map snd (block_spans idxs n) = (if idxs = [] then [] else tl idxs @ [n])"
  by (induction idxs n rule: block_spans.induct) simp_all

lemma block_spans_ordered:
  "sorted_wrt (<) idxs \<Longrightarrow> \<forall>i \<in> set idxs. i < n \<Longrightarrow>
   \<forall>(i, j) \<in> set (block_spans idxs n). i < j \<and> j \<le> n"
  by (induction idxs n rule: block_spans.induct) auto

lemma concat_block_slices:
  "sorted_wrt (<) idxs \<Longrightarrow> \<forall>i \<in> set idxs. i < length xs \<Longrightarrow> idxs \<noteq> [] \<Longrightarrow>
   concat (map (\<lambda>(i, j). slice xs i j) (block_spans idxs (length xs))) = drop (hd idxs) xs"
proof (induction idxs "length xs" rule: block_spans.induct)
  case 1
  then show ?case by simp
next
  case (2 s)
  then show ?case by (simp add: slice_def)
next
  case (3 s t idxs)
  then have st: "s < t" by simp
  have "slice xs s t @ drop t xs = drop s xs"
  proof -
    have "drop t xs = drop (t - s) (drop s xs)" using st by simp
    then show ?thesis unfolding slice_def by (metis append_take_drop_id)
  qed
  with 3 show ?case by simp
qed

lemma block_spans_length: "length (block_spans idxs n) = length idxs"
  by (induction idxs n rule: block_spans.induct) simp_all

lemma block_spans_nth:
  "k < length idxs \<Longrightarrow>
   block_spans idxs n ! k = (idxs ! k, if Suc k < length idxs then idxs ! Suc k else n)"
proof (induction idxs n arbitrary: k rule: block_spans.induct)
  case (1 n)
  then show ?case by simp
next
  case (2 s n)
  then show ?case by simp
next
  case (3 s t idxs n)
  then show ?case by (cases k) simp_all
qed

lemma cluster_blocks_nth:
  assumes "k < length (block_starts lines)"
  shows "cluster_blocks lines ! k
           = take ((if Suc k < length (block_starts lines) then block_starts lines ! Suc k
                    else length lines) - block_starts lines ! k)
               (drop (block_starts lines ! k) lines)"
  using assms
  by (simp add: cluster_blocks_def block_spans_length block_spans_nth slice_def)

lemma cluster_blocks_hd:
  assumes "k < length (block_starts lines)"
  shows "cluster_blocks lines ! k \<noteq> []
         \<and> hd (cluster_blocks lines ! k) = lines ! (block_starts lines ! k)"
proof -
  let ?s = "block_starts lines ! k"
  let ?e = "if Suc k < length (block_starts lines) then block_starts lines ! Suc k
            else length lines"
  have s: "?s < length lines"
    using assms block_starts_bound [of ?s lines] by simp
  have "?s < ?e"
  proof (cases "Suc k < length (block_starts lines)")
    case True
    then show ?thesis
      using block_starts_sorted [of lines] by (simp add: sorted_wrt_iff_nth_less)
  next
    case False
    then show ?thesis using s by simp
  qed
  then have p: "0 < ?e - ?s" by simp
  have d: "drop ?s lines \<noteq> []" using s by simp
  have "take (?e - ?s) (drop ?s lines) \<noteq> []"
    using p d by (cases "?e - ?s") auto
  moreover have "hd (take (?e - ?s) (drop ?s lines)) = lines ! ?s"
    using p s by (cases "?e - ?s") (simp_all add: hd_drop_conv_nth)
  ultimately show ?thesis
    unfolding cluster_blocks_nth [OF assms] by blast
qed

text \<open>
  Claim C4. The block starts are the lines whose stripped text begins with \<open>>>\<close>, found
  by a scan of every line; the lines matching the ordinal pattern are used only when
  there is no such line at all. The spans pair every start with the next start, or with
  the number of lines for the last one, so every span is non-empty, ends where the next
  one begins, and the blocks together are the file from the first start on. There is
  one block for every start: the lines from that start up to the line before the next
  start, or up to the last line of the file, so its first line is the marker line.
  Without any marker the result is the empty list of blocks.
\<close>

theorem report_segmentation:
  "block_starts lines
     = (if primary_starts lines \<noteq> [] then primary_starts lines else fallback_starts lines)
   \<and> set (primary_starts lines)
       = {i. i < length lines \<and> startswith (strip (lines ! i)) ''>>''}
   \<and> set (fallback_starts lines)
       = {i. i < length lines \<and> match_ordinal_bgc (strip (lines ! i))}
   \<and> sorted_wrt (<) (block_starts lines)
   \<and> map fst (block_spans (block_starts lines) (length lines)) = block_starts lines
   \<and> map snd (block_spans (block_starts lines) (length lines))
       = (if block_starts lines = [] then [] else tl (block_starts lines) @ [length lines])
   \<and> (\<forall>(i, j) \<in> set (block_spans (block_starts lines) (length lines)).
         i < j \<and> j \<le> length lines)
   \<and> (block_starts lines \<noteq> [] \<longrightarrow>
         concat (cluster_blocks lines) = drop (hd (block_starts lines)) lines)
   \<and> (primary_starts lines = [] \<and> fallback_starts lines = [] \<longrightarrow> cluster_blocks lines = [])
   \<and> cluster_blocks lines
       = map (\<lambda>(i, j). take (j - i) (drop i lines))
           (block_spans (block_starts lines) (length lines))
   \<and> length (cluster_blocks lines) = length (block_starts lines)
   \<and> (\<forall>k < length (block_starts lines).
         cluster_blocks lines ! k
           = take ((if Suc k < length (block_starts lines) then block_starts lines ! Suc k
                    else length lines) - block_starts lines ! k)
               (drop (block_starts lines ! k) lines)
         \<and> cluster_blocks lines ! k \<noteq> []
         \<and> hd (cluster_blocks lines ! k) = lines ! (block_starts lines ! k))"
proof -
  have a: "block_starts lines
     = (if primary_starts lines \<noteq> [] then primary_starts lines else fallback_starts lines)"
    by (simp add: block_starts_def Let_def)
  have p: "set (primary_starts lines)
       = {i. i < length lines \<and> startswith (strip (lines ! i)) ''>>''}"
    by (simp add: primary_starts_def marker_indices_set)
  have f: "set (fallback_starts lines)
       = {i. i < length lines \<and> match_ordinal_bgc (strip (lines ! i))}"
    by (simp add: fallback_starts_def marker_indices_set)
  have s: "sorted_wrt (<) (block_starts lines)"
    by (rule block_starts_sorted)
  have m1: "map fst (block_spans (block_starts lines) (length lines)) = block_starts lines"
    by (rule block_spans_fst)
  have m2: "map snd (block_spans (block_starts lines) (length lines))
       = (if block_starts lines = [] then [] else tl (block_starts lines) @ [length lines])"
    by (rule block_spans_snd)
  have b: "\<forall>(i, j) \<in> set (block_spans (block_starts lines) (length lines)).
         i < j \<and> j \<le> length lines"
    using block_spans_ordered [OF block_starts_sorted, of lines "length lines"]
      block_starts_bound [of _ lines] by blast
  have c: "block_starts lines \<noteq> [] \<longrightarrow>
         concat (cluster_blocks lines) = drop (hd (block_starts lines)) lines"
    using concat_block_slices [OF block_starts_sorted, of lines lines]
      block_starts_bound [of _ lines] by (auto simp: cluster_blocks_def)
  have d: "primary_starts lines = [] \<and> fallback_starts lines = [] \<longrightarrow> cluster_blocks lines = []"
    by (simp add: cluster_blocks_def block_starts_def)
  have e: "cluster_blocks lines
       = map (\<lambda>(i, j). take (j - i) (drop i lines))
           (block_spans (block_starts lines) (length lines))"
    by (simp add: cluster_blocks_def slice_def)
  have l: "length (cluster_blocks lines) = length (block_starts lines)"
    by (simp add: cluster_blocks_def block_spans_length)
  have n: "\<forall>k < length (block_starts lines).
         cluster_blocks lines ! k
           = take ((if Suc k < length (block_starts lines) then block_starts lines ! Suc k
                    else length lines) - block_starts lines ! k)
               (drop (block_starts lines ! k) lines)
         \<and> cluster_blocks lines ! k \<noteq> []
         \<and> hd (cluster_blocks lines ! k) = lines ! (block_starts lines ! k)"
    using cluster_blocks_nth cluster_blocks_hd by blast
  show ?thesis
    by (intro conjI; fact)
qed

theorem report_segmentation_witness:
  "block_starts segmented_report = [1, 4]
   \<and> fallback_starts segmented_report = [2, 5]
   \<and> block_spans (block_starts segmented_report) (length segmented_report) = [(1, 4), (4, 6)]
   \<and> concat (cluster_blocks segmented_report) = drop 1 segmented_report
   \<and> cluster_blocks segmented_report
       = [[''>>'', ''1. BGC0000001'', ''Source: a''], ['' >> '', ''2. BGC0000002'']]
   \<and> primary_starts ordinal_report = []
   \<and> block_spans (block_starts ordinal_report) (length ordinal_report) = [(1, 3), (3, 4)]
   \<and> cluster_blocks ordinal_report
       = [[''1. BGC0000001'', ''Source: a''], [''2. BGC0000002'']]
   \<and> primary_starts unmarked_report = [] \<and> fallback_starts unmarked_report = []
   \<and> cluster_blocks unmarked_report = []"
proof -
  have s: "block_starts segmented_report = [1, 4]" by code_simp
  have f: "fallback_starts segmented_report = [2, 5]" by code_simp
  have sp: "block_spans (block_starts segmented_report) (length segmented_report) = [(1, 4), (4, 6)]"
    by code_simp
  have o: "primary_starts ordinal_report = []" by code_simp
  have osp: "block_spans (block_starts ordinal_report) (length ordinal_report) = [(1, 3), (3, 4)]"
    by code_simp
  have u: "primary_starts unmarked_report = []" "fallback_starts unmarked_report = []"
    by code_simp+
  have v: "map (\<lambda>(i, j). take (j - i) (drop i segmented_report)) [(1, 4), (4, 6)]
      = [[''>>'', ''1. BGC0000001'', ''Source: a''], ['' >> '', ''2. BGC0000002'']]"
    "map (\<lambda>(i, j). take (j - i) (drop i ordinal_report)) [(1, 3), (3, 4)]
      = [[''1. BGC0000001'', ''Source: a''], [''2. BGC0000002'']]"
    by code_simp+
  have cs: "cluster_blocks segmented_report
       = [[''>>'', ''1. BGC0000001'', ''Source: a''], ['' >> '', ''2. BGC0000002'']]"
    using report_segmentation [of segmented_report] by (simp only: sp v)
  have co: "cluster_blocks ordinal_report
       = [[''1. BGC0000001'', ''Source: a''], [''2. BGC0000002'']]"
    using report_segmentation [of ordinal_report] by (simp only: osp v)
  have ne: "block_starts segmented_report \<noteq> []" and hs: "hd (block_starts segmented_report) = 1"
    using s by simp_all
  have "concat (cluster_blocks segmented_report)
      = drop (hd (block_starts segmented_report)) segmented_report"
    using report_segmentation [of segmented_report] ne by blast
  then have cc: "concat (cluster_blocks segmented_report) = drop 1 segmented_report"
    by (simp only: hs)
  have cu: "cluster_blocks unmarked_report = []"
    using report_segmentation [of unmarked_report] u by blast
  from s f sp cc cs o osp co u cu show ?thesis by blast
qed

subsection \<open>Cleaning of the cluster identifier\<close>

lemma sub_dot_suffix_no_lf:
  "LF \<notin> set i \<Longrightarrow> sub_dot_suffix i = takeWhile (\<lambda>c. c \<noteq> CHR ''.'') i"
proof (induction i)
  case Nil
  then show ?case by simp
next
  case (Cons c cs)
  then have "dropWhile (\<lambda>x. x \<noteq> LF) cs = []"
    by (auto simp: dropWhile_eq_Nil_conv)
  with Cons show ?case by simp
qed

lemma sub_dot_suffix_no_dot: "CHR ''.'' \<notin> set i \<Longrightarrow> sub_dot_suffix i = i"
  by (induction i) auto

lemma not_id_char_LF: "\<not> is_id_char LF"
  by (simp add: is_id_char_def is_digit_def is_upper_def is_lower_def LF_def)

lemma match_bgc_shape:
  assumes "match_bgc s = Some g"
  shows "g \<noteq> [] \<and> LF \<notin> set g"
proof -
  from assms obtain r where g: "g = take 3 r @ takeWhile is_id_char (drop 3 r)"
    and l: "length (take 3 r) = 3" and u: "list_all is_upper (take 3 r)"
    by (auto simp: match_bgc_def split: option.splits if_splits)
  from l have "g \<noteq> []" using g by auto
  moreover have "\<forall>c \<in> set (take 3 r). is_id_char c"
    using u by (simp add: list_all_iff is_id_char_def)
  then have "\<forall>c \<in> set g. is_id_char c"
    using g by (auto dest: set_takeWhileD)
  then have "LF \<notin> set g" using not_id_char_LF by blast
  ultimately show ?thesis by simp
qed

lemma match_bgc2_shape:
  assumes "match_bgc2 s = Some g"
  shows "g \<noteq> [] \<and> LF \<notin> set g"
proof -
  from assms obtain r where g: "g = ''BGC'' @ takeWhile is_num_char (drop 3 r)"
    by (auto simp: match_bgc2_def split: option.splits if_splits)
  have "\<forall>c \<in> set (takeWhile is_num_char (drop 3 r)). is_id_char c"
    by (auto dest!: set_takeWhileD simp: is_num_char_def is_id_char_def)
  then have "\<forall>c \<in> set g. c \<noteq> LF"
    using g not_id_char_LF by (auto simp: LF_def)
  then show ?thesis using g by auto
qed

lemma meta_step_id_ok: "id_ok (bgc_id m) \<Longrightarrow> id_ok (bgc_id (meta_step m ln))"
  using match_bgc_shape [of "strip ln"] match_bgc2_shape [of "strip ln"]
  by (auto simp: meta_step_def Let_def id_ok_def split: option.splits)

lemma foldl_meta_step_id_ok: "id_ok (bgc_id m) \<Longrightarrow> id_ok (bgc_id (foldl meta_step m ls))"
  by (induction ls arbitrary: m) (simp_all add: meta_step_id_ok)

lemma block_metadata_id_ok: "id_ok (bgc_id (block_metadata block))"
  unfolding block_metadata_def
  by (rule foldl_meta_step_id_ok) (simp add: no_meta_def id_ok_def)

text \<open>
  Claim C5. The cleaned identifier of a block is the extracted identifier cut at its
  first dot, the dot and what follows it dropped: \<open>BGC0001089.5\<close> becomes
  \<open>BGC0001089\<close>. An identifier without a dot is unchanged.
\<close>

theorem cluster_id_cleaning:
  "clean_bgc_id (bgc_id (block_metadata block))
     = map_option (takeWhile (\<lambda>c. c \<noteq> CHR ''.'')) (bgc_id (block_metadata block))
   \<and> (LF \<notin> set i \<longrightarrow> sub_dot_suffix i = takeWhile (\<lambda>c. c \<noteq> CHR ''.'') i)
   \<and> (CHR ''.'' \<notin> set i \<longrightarrow> sub_dot_suffix i = i)
   \<and> clean_bgc_id (Some ''BGC0001089.5'') = Some ''BGC0001089''"
proof -
  have "clean_bgc_id (bgc_id (block_metadata block))
     = map_option (takeWhile (\<lambda>c. c \<noteq> CHR ''.'')) (bgc_id (block_metadata block))"
    using block_metadata_id_ok [of block]
    by (auto simp: id_ok_def clean_bgc_id_def sub_dot_suffix_no_lf split: option.splits)
  moreover have "clean_bgc_id (Some ''BGC0001089.5'') = Some ''BGC0001089''"
    by (simp add: clean_bgc_id_def LF_def)
  ultimately show ?thesis
    by (simp add: sub_dot_suffix_no_lf sub_dot_suffix_no_dot)
qed

theorem cluster_id_cleaning_witness:
  "LF \<notin> set ''BGC0001089.5''
   \<and> sub_dot_suffix ''BGC0001089.5'' = ''BGC0001089''
   \<and> CHR ''.'' \<notin> set ''BGC0001089''
   \<and> sub_dot_suffix ''BGC0001089'' = ''BGC0001089''
   \<and> bgc_id (block_metadata header_block) = Some ''BGC0001089.5''
   \<and> clean_bgc_id (bgc_id (block_metadata header_block)) = Some ''BGC0001089''"
proof -
  have b: "bgc_id (block_metadata header_block) = Some ''BGC0001089.5''"
    by code_simp
  have l: "LF \<notin> set ''BGC0001089.5''" "CHR ''.'' \<notin> set ''BGC0001089''"
    by (simp_all add: LF_def)
  have t: "takeWhile (\<lambda>c. c \<noteq> CHR ''.'') ''BGC0001089.5'' = ''BGC0001089''"
    by simp
  show ?thesis
    using cluster_id_cleaning [of header_block "''BGC0001089.5''"]
      cluster_id_cleaning [of header_block "''BGC0001089''"] b l t
    by simp
qed

subsection \<open>The two parses of a table line\<close>

text \<open>
  Claim C7. A hit line whose tab split has at least 6 fields is parsed from the tab
  split: the hit carries the metadata of its block, and its six fields are the first
  six tab fields, stripped (the gene id normalised), whatever the whitespace split of
  the line would give. The loop over the hits table appends that hit for such a line,
  unless the line ends the table (it is blank, or starts with \<open>>>\<close> or with an ordinal
  and \<open>BGC\<close>), in which case the loop stops there.
\<close>

theorem hit_line_tab_parse_preferred:
  assumes "6 \<le> length (split_on TAB ln)"
  shows "hit_of_line m ln =
           Some \<lparr> BCG_identifier = clean_bgc_id (bgc_id m),
                  BCG_name = source_name m,
                  BCG_type = bgc_type m,
                  proteins_with_blast_hits = proteins_with_hits m,
                  cum_BLAST_Score = cum_score m,
                  query_gene = normalize_gene_id (split_on TAB ln ! 0),
                  subject_gene = strip (split_on TAB ln ! 1),
                  pct_identity = strip (split_on TAB ln ! 2),
                  blast_score = strip (split_on TAB ln ! 3),
                  pct_coverage = strip (split_on TAB ln ! 4),
                  evalue = strip (split_on TAB ln ! 5) \<rparr>
         \<and> (strip ln \<noteq> [] \<and> \<not> startswith (strip ln) ''>>'' \<and> \<not> match_ordinal_bgc (strip ln) \<longrightarrow>
              collect_hits m (ln # rest) =
                \<lparr> BCG_identifier = clean_bgc_id (bgc_id m),
                  BCG_name = source_name m,
                  BCG_type = bgc_type m,
                  proteins_with_blast_hits = proteins_with_hits m,
                  cum_BLAST_Score = cum_score m,
                  query_gene = normalize_gene_id (split_on TAB ln ! 0),
                  subject_gene = strip (split_on TAB ln ! 1),
                  pct_identity = strip (split_on TAB ln ! 2),
                  blast_score = strip (split_on TAB ln ! 3),
                  pct_coverage = strip (split_on TAB ln ! 4),
                  evalue = strip (split_on TAB ln ! 5) \<rparr> # collect_hits m rest)
         \<and> (strip ln = [] \<or> startswith (strip ln) ''>>'' \<or> match_ordinal_bgc (strip ln) \<longrightarrow>
              collect_hits m (ln # rest) = [])"
proof -
  have h: "hit_of_line m ln =
           Some \<lparr> BCG_identifier = clean_bgc_id (bgc_id m),
                  BCG_name = source_name m,
                  BCG_type = bgc_type m,
                  proteins_with_blast_hits = proteins_with_hits m,
                  cum_BLAST_Score = cum_score m,
                  query_gene = normalize_gene_id (split_on TAB ln ! 0),
                  subject_gene = strip (split_on TAB ln ! 1),
                  pct_identity = strip (split_on TAB ln ! 2),
                  blast_score = strip (split_on TAB ln ! 3),
                  pct_coverage = strip (split_on TAB ln ! 4),
                  evalue = strip (split_on TAB ln ! 5) \<rparr>"
    using assms by (simp add: hit_of_line_def hit_of_tab_parts_def mk_hit_def Let_def)
  show ?thesis
    unfolding h collect_hits.simps by simp
qed

theorem hit_line_tab_parse_preferred_witness:
  "6 \<le> length (split_on TAB tabbed_hit_line)
   \<and> 6 \<le> length (split_ws tabbed_hit_line)
   \<and> split_ws tabbed_hit_line ! 1 = ''1''
   \<and> hit_of_line (block_metadata full_header_block) tabbed_hit_line
       = Some \<lparr> BCG_identifier = Some ''BGC0001089'', BCG_name = Some ''bacillaene'',
                BCG_type = Some ''NRPS'', proteins_with_blast_hits = Some ''3'',
                cum_BLAST_Score = Some ''1200'', query_gene = ''gene 1'',
                subject_gene = ''subj x'', pct_identity = ''95 0'', blast_score = ''300'',
                pct_coverage = ''88'', evalue = ''1e-20 z'' \<rparr>
   \<and> collect_hits (block_metadata full_header_block) [tabbed_hit_line]
       = [\<lparr> BCG_identifier = Some ''BGC0001089'', BCG_name = Some ''bacillaene'',
            BCG_type = Some ''NRPS'', proteins_with_blast_hits = Some ''3'',
            cum_BLAST_Score = Some ''1200'', query_gene = ''gene 1'',
            subject_gene = ''subj x'', pct_identity = ''95 0'', blast_score = ''300'',
            pct_coverage = ''88'', evalue = ''1e-20 z'' \<rparr>]
   \<and> snd (parse_file tabbed_report)
       = [\<lparr> BCG_identifier = Some ''BGC0001089'', BCG_name = Some ''bacillaene'',
            BCG_type = Some ''NRPS'', proteins_with_blast_hits = Some ''3'',
            cum_BLAST_Score = Some ''1200'', query_gene = ''gene 1'',
            subject_gene = ''subj x'', pct_identity = ''95 0'', blast_score = ''300'',
            pct_coverage = ''88'', evalue = ''1e-20 z'' \<rparr>]
   \<and> 6 \<le> length (split_on TAB ordinal_tab_line)
   \<and> match_ordinal_bgc (strip ordinal_tab_line)
   \<and> collect_hits (block_metadata full_header_block) [ordinal_tab_line, tabbed_hit_line] = []"
proof -
  have h: "6 \<le> length (split_on TAB tabbed_hit_line)" by code_simp
  have w: "6 \<le> length (split_ws tabbed_hit_line)" by code_simp
  have w1: "split_ws tabbed_hit_line ! 1 = ''1''" by code_simp
  have nt: "strip tabbed_hit_line \<noteq> [] \<and> \<not> startswith (strip tabbed_hit_line) ''>>''
      \<and> \<not> match_ordinal_bgc (strip tabbed_hit_line)"
    by code_simp
  have v: "clean_bgc_id (bgc_id (block_metadata full_header_block)) = Some ''BGC0001089''"
    "source_name (block_metadata full_header_block) = Some ''bacillaene''"
    "bgc_type (block_metadata full_header_block) = Some ''NRPS''"
    "proteins_with_hits (block_metadata full_header_block) = Some ''3''"
    "cum_score (block_metadata full_header_block) = Some ''1200''"
    "normalize_gene_id (split_on TAB tabbed_hit_line ! 0) = ''gene 1''"
    "strip (split_on TAB tabbed_hit_line ! 1) = ''subj x''"
    "strip (split_on TAB tabbed_hit_line ! 2) = ''95 0''"
    "strip (split_on TAB tabbed_hit_line ! 3) = ''300''"
    "strip (split_on TAB tabbed_hit_line ! 4) = ''88''"
    "strip (split_on TAB tabbed_hit_line ! 5) = ''1e-20 z''"
    by code_simp+
  note T = hit_line_tab_parse_preferred [OF h, of "block_metadata full_header_block" "[]"]
  have a: "hit_of_line (block_metadata full_header_block) tabbed_hit_line
       = Some \<lparr> BCG_identifier = Some ''BGC0001089'', BCG_name = Some ''bacillaene'',
                BCG_type = Some ''NRPS'', proteins_with_blast_hits = Some ''3'',
                cum_BLAST_Score = Some ''1200'', query_gene = ''gene 1'',
                subject_gene = ''subj x'', pct_identity = ''95 0'', blast_score = ''300'',
                pct_coverage = ''88'', evalue = ''1e-20 z'' \<rparr>"
    using T [THEN conjunct1] by (simp only: v)
  have b: "collect_hits (block_metadata full_header_block) [tabbed_hit_line]
       = [\<lparr> BCG_identifier = Some ''BGC0001089'', BCG_name = Some ''bacillaene'',
            BCG_type = Some ''NRPS'', proteins_with_blast_hits = Some ''3'',
            cum_BLAST_Score = Some ''1200'', query_gene = ''gene 1'',
            subject_gene = ''subj x'', pct_identity = ''95 0'', blast_score = ''300'',
            pct_coverage = ''88'', evalue = ''1e-20 z'' \<rparr>]"
    using T [THEN conjunct2, THEN conjunct1] nt
    by (simp only: v collect_hits.simps(1) simp_thms)
  have p: "snd (parse_file tabbed_report)
       = [\<lparr> BCG_identifier = Some ''BGC0001089'', BCG_name = Some ''bacillaene'',
            BCG_type = Some ''NRPS'', proteins_with_blast_hits = Some ''3'',
            cum_BLAST_Score = Some ''1200'', query_gene = ''gene 1'',
            subject_gene = ''subj x'', pct_identity = ''95 0'', blast_score = ''300'',
            pct_coverage = ''88'', evalue = ''1e-20 z'' \<rparr>]"
    by code_simp
  have o: "6 \<le> length (split_on TAB ordinal_tab_line)"
    "match_ordinal_bgc (strip ordinal_tab_line)"
    by code_simp+
  have c: "collect_hits (block_metadata full_header_block) [ordinal_tab_line, tabbed_hit_line] = []"
    using hit_line_tab_parse_preferred [OF o(1), of "block_metadata full_header_block"
        "[tabbed_hit_line]", THEN conjunct2, THEN conjunct2] o(2)
    by blast
  from h w w1 a b p o c show ?thesis by blast
qed

text \<open>
  Claim C6. When the tab split is too short, a hit line with at least 6 whitespace
  tokens gives the hit whose six fields are the tokens 0 to 5 (the gene id normalised);
  no further token enters the hit. A line of the query table with at least 5
  whitespace tokens gets as annotation all the tokens from position 4 on, joined by
  single spaces. The two loops append these rows for a line that does not end the
  table.
\<close>

theorem whitespace_fallback_asymmetry:
  "(length (split_on TAB ln) < 6 \<and> 6 \<le> length (split_ws ln) \<longrightarrow>
      hit_of_line m ln =
        Some \<lparr> BCG_identifier = clean_bgc_id (bgc_id m),
               BCG_name = source_name m,
               BCG_type = bgc_type m,
               proteins_with_blast_hits = proteins_with_hits m,
               cum_BLAST_Score = cum_score m,
               query_gene = normalize_gene_id (split_ws ln ! 0),
               subject_gene = split_ws ln ! 1,
               pct_identity = split_ws ln ! 2,
               blast_score = split_ws ln ! 3,
               pct_coverage = split_ws ln ! 4,
               evalue = split_ws ln ! 5 \<rparr>
      \<and> (strip ln \<noteq> [] \<and> \<not> startswith (strip ln) ''>>'' \<and> \<not> match_ordinal_bgc (strip ln) \<longrightarrow>
           collect_hits m (ln # rest) =
             \<lparr> BCG_identifier = clean_bgc_id (bgc_id m),
               BCG_name = source_name m,
               BCG_type = bgc_type m,
               proteins_with_blast_hits = proteins_with_hits m,
               cum_BLAST_Score = cum_score m,
               query_gene = normalize_gene_id (split_ws ln ! 0),
               subject_gene = split_ws ln ! 1,
               pct_identity = split_ws ln ! 2,
               blast_score = split_ws ln ! 3,
               pct_coverage = split_ws ln ! 4,
               evalue = split_ws ln ! 5 \<rparr> # collect_hits m rest))
   \<and> (length (split_on TAB ln) < 5 \<and> 5 \<le> length (split_ws ln) \<longrightarrow>
        query_row_of_line ln =
          Some \<lparr> qr_gene = normalize_gene_id (split_ws ln ! 0),
                 qr_start = split_ws ln ! 1, qr_stop = split_ws ln ! 2,
                 qr_strand = split_ws ln ! 3,
                 qr_annotation = Some (join '' '' (drop 4 (split_ws ln))) \<rparr>)
   \<and> (length (split_on TAB (rstrip_chars [LF] ln0)) < 5
        \<and> 5 \<le> length (split_ws (rstrip_chars [LF] ln0))
        \<and> strip (rstrip_chars [LF] ln0) \<noteq> []
        \<and> \<not> startswith (strip (rstrip_chars [LF] ln0)) ''Significant hits:''
        \<and> \<not> startswith (strip (rstrip_chars [LF] ln0)) ''Details:'' \<longrightarrow>
        query_rows (ln0 # qrest) =
          \<lparr> qr_gene = normalize_gene_id (split_ws (rstrip_chars [LF] ln0) ! 0),
            qr_start = split_ws (rstrip_chars [LF] ln0) ! 1,
            qr_stop = split_ws (rstrip_chars [LF] ln0) ! 2,
            qr_strand = split_ws (rstrip_chars [LF] ln0) ! 3,
            qr_annotation = Some (join '' '' (drop 4 (split_ws (rstrip_chars [LF] ln0)))) \<rparr>
          # query_rows qrest)"
proof -
  have q: "length (split_on TAB x) < 5 \<and> 5 \<le> length (split_ws x) \<longrightarrow>
        query_row_of_line x =
          Some \<lparr> qr_gene = normalize_gene_id (split_ws x ! 0),
                 qr_start = split_ws x ! 1, qr_stop = split_ws x ! 2,
                 qr_strand = split_ws x ! 3,
                 qr_annotation = Some (join '' '' (drop 4 (split_ws x))) \<rparr>" for x
    by (simp add: query_row_of_line_def Let_def)
  have h: "length (split_on TAB ln) < 6 \<and> 6 \<le> length (split_ws ln) \<longrightarrow>
      hit_of_line m ln =
        Some \<lparr> BCG_identifier = clean_bgc_id (bgc_id m),
               BCG_name = source_name m,
               BCG_type = bgc_type m,
               proteins_with_blast_hits = proteins_with_hits m,
               cum_BLAST_Score = cum_score m,
               query_gene = normalize_gene_id (split_ws ln ! 0),
               subject_gene = split_ws ln ! 1,
               pct_identity = split_ws ln ! 2,
               blast_score = split_ws ln ! 3,
               pct_coverage = split_ws ln ! 4,
               evalue = split_ws ln ! 5 \<rparr>"
    by (simp add: hit_of_line_def hit_of_ws_parts_def mk_hit_def Let_def)
  have ql: "length (split_on TAB (rstrip_chars [LF] ln0)) < 5
        \<and> 5 \<le> length (split_ws (rstrip_chars [LF] ln0))
        \<and> strip (rstrip_chars [LF] ln0) \<noteq> []
        \<and> \<not> startswith (strip (rstrip_chars [LF] ln0)) ''Significant hits:''
        \<and> \<not> startswith (strip (rstrip_chars [LF] ln0)) ''Details:'' \<longrightarrow>
        query_rows (ln0 # qrest) =
          \<lparr> qr_gene = normalize_gene_id (split_ws (rstrip_chars [LF] ln0) ! 0),
            qr_start = split_ws (rstrip_chars [LF] ln0) ! 1,
            qr_stop = split_ws (rstrip_chars [LF] ln0) ! 2,
            qr_strand = split_ws (rstrip_chars [LF] ln0) ! 3,
            qr_annotation = Some (join '' '' (drop 4 (split_ws (rstrip_chars [LF] ln0)))) \<rparr>
          # query_rows qrest"
    using q [of "rstrip_chars [LF] ln0"] by (simp add: Let_def)
  have hl: "length (split_on TAB ln) < 6 \<and> 6 \<le> length (split_ws ln) \<longrightarrow>
      (strip ln \<noteq> [] \<and> \<not> startswith (strip ln) ''>>'' \<and> \<not> match_ordinal_bgc (strip ln) \<longrightarrow>
           collect_hits m (ln # rest) =
             \<lparr> BCG_identifier = clean_bgc_id (bgc_id m),
               BCG_name = source_name m,
               BCG_type = bgc_type m,
               proteins_with_blast_hits = proteins_with_hits m,
               cum_BLAST_Score = cum_score m,
               query_gene = normalize_gene_id (split_ws ln ! 0),
               subject_gene = split_ws ln ! 1,
               pct_identity = split_ws ln ! 2,
               blast_score = split_ws ln ! 3,
               pct_coverage = split_ws ln ! 4,
               evalue = split_ws ln ! 5 \<rparr> # collect_hits m rest)"
    using h by simp
  from h hl q [of ln] ql show ?thesis by blast
qed

theorem whitespace_fallback_asymmetry_witness:
  "length (split_on TAB spaced_line) < 5 \<and> length (split_ws spaced_line) = 8
   \<and> hit_of_line (block_metadata full_header_block) spaced_line
       = Some \<lparr> BCG_identifier = Some ''BGC0001089'', BCG_name = Some ''bacillaene'',
                BCG_type = Some ''NRPS'', proteins_with_blast_hits = Some ''3'',
                cum_BLAST_Score = Some ''1200'', query_gene = ''gene1'',
                subject_gene = ''subj1'', pct_identity = ''95.0'', blast_score = ''300'',
                pct_coverage = ''88.0'', evalue = ''1e-20'' \<rparr>
   \<and> collect_hits (block_metadata full_header_block) [spaced_line]
       = [\<lparr> BCG_identifier = Some ''BGC0001089'', BCG_name = Some ''bacillaene'',
            BCG_type = Some ''NRPS'', proteins_with_blast_hits = Some ''3'',
            cum_BLAST_Score = Some ''1200'', query_gene = ''gene1'',
            subject_gene = ''subj1'', pct_identity = ''95.0'', blast_score = ''300'',
            pct_coverage = ''88.0'', evalue = ''1e-20'' \<rparr>]
   \<and> query_row_of_line spaced_line
       = Some \<lparr> qr_gene = ''gene1'', qr_start = ''subj1'', qr_stop = ''95.0'',
                qr_strand = ''300'', qr_annotation = Some ''88.0 1e-20 extra more'' \<rparr>
   \<and> length (split_on TAB spaced_query_line) < 5 \<and> length (split_ws spaced_query_line) = 7
   \<and> query_rows [spaced_query_line]
       = [\<lparr> qr_gene = ''gene1'', qr_start = ''100'', qr_stop = ''200'', qr_strand = ''+'',
            qr_annotation = Some ''putative ABC transporter'' \<rparr>]
   \<and> parse_file spaced_report
       = ([\<lparr> qr_gene = ''gene1'', qr_start = ''100'', qr_stop = ''200'', qr_strand = ''+'',
             qr_annotation = Some ''putative ABC transporter'' \<rparr>],
          [\<lparr> BCG_identifier = Some ''BGC0001089'', BCG_name = Some ''bacillaene'',
             BCG_type = Some ''NRPS'', proteins_with_blast_hits = Some ''3'',
             cum_BLAST_Score = Some ''1200'', query_gene = ''gene1'',
             subject_gene = ''subj1'', pct_identity = ''95.0'', blast_score = ''300'',
             pct_coverage = ''88.0'', evalue = ''1e-20'' \<rparr>])"
proof -
  have t: "length (split_on TAB spaced_line) < 5" by code_simp
  have n: "length (split_ws spaced_line) = 8" by code_simp
  have s: "length (split_on TAB spaced_line) < 6 \<and> 6 \<le> length (split_ws spaced_line)"
    "length (split_on TAB spaced_line) < 5 \<and> 5 \<le> length (split_ws spaced_line)"
    using t n by simp_all
  have nt: "strip spaced_line \<noteq> [] \<and> \<not> startswith (strip spaced_line) ''>>''
      \<and> \<not> match_ordinal_bgc (strip spaced_line)"
    by code_simp
  have qt: "length (split_on TAB spaced_query_line) < 5" by code_simp
  have qn: "length (split_ws spaced_query_line) = 7" by code_simp
  have r: "rstrip_chars [LF] spaced_query_line = spaced_query_line" by code_simp
  have qh: "length (split_on TAB (rstrip_chars [LF] spaced_query_line)) < 5
        \<and> 5 \<le> length (split_ws (rstrip_chars [LF] spaced_query_line))
        \<and> strip (rstrip_chars [LF] spaced_query_line) \<noteq> []
        \<and> \<not> startswith (strip (rstrip_chars [LF] spaced_query_line)) ''Significant hits:''
        \<and> \<not> startswith (strip (rstrip_chars [LF] spaced_query_line)) ''Details:''"
    by code_simp
  have v: "clean_bgc_id (bgc_id (block_metadata full_header_block)) = Some ''BGC0001089''"
    "source_name (block_metadata full_header_block) = Some ''bacillaene''"
    "bgc_type (block_metadata full_header_block) = Some ''NRPS''"
    "proteins_with_hits (block_metadata full_header_block) = Some ''3''"
    "cum_score (block_metadata full_header_block) = Some ''1200''"
    "normalize_gene_id (split_ws spaced_line ! 0) = ''gene1''"
    "split_ws spaced_line ! 1 = ''subj1''"
    "split_ws spaced_line ! 2 = ''95.0''"
    "split_ws spaced_line ! 3 = ''300''"
    "split_ws spaced_line ! 4 = ''88.0''"
    "split_ws spaced_line ! 5 = ''1e-20''"
    "join '' '' (drop 4 (split_ws spaced_line)) = ''88.0 1e-20 extra more''"
    "normalize_gene_id (split_ws spaced_query_line ! 0) = ''gene1''"
    "split_ws spaced_query_line ! 1 = ''100''"
    "split_ws spaced_query_line ! 2 = ''200''"
    "split_ws spaced_query_line ! 3 = ''+''"
    "join '' '' (drop 4 (split_ws spaced_query_line)) = ''putative ABC transporter''"
    by code_simp+
  note T = whitespace_fallback_asymmetry
    [of spaced_line "block_metadata full_header_block" "[]" spaced_query_line "[]"]
  have a: "hit_of_line (block_metadata full_header_block) spaced_line
       = Some \<lparr> BCG_identifier = Some ''BGC0001089'', BCG_name = Some ''bacillaene'',
                BCG_type = Some ''NRPS'', proteins_with_blast_hits = Some ''3'',
                cum_BLAST_Score = Some ''1200'', query_gene = ''gene1'',
                subject_gene = ''subj1'', pct_identity = ''95.0'', blast_score = ''300'',
                pct_coverage = ''88.0'', evalue = ''1e-20'' \<rparr>"
    using T [THEN conjunct1] s(1) by (simp only: v simp_thms)
  have b: "collect_hits (block_metadata full_header_block) [spaced_line]
       = [\<lparr> BCG_identifier = Some ''BGC0001089'', BCG_name = Some ''bacillaene'',
            BCG_type = Some ''NRPS'', proteins_with_blast_hits = Some ''3'',
            cum_BLAST_Score = Some ''1200'', query_gene = ''gene1'',
            subject_gene = ''subj1'', pct_identity = ''95.0'', blast_score = ''300'',
            pct_coverage = ''88.0'', evalue = ''1e-20'' \<rparr>]"
    using T [THEN conjunct1] s(1) nt by (simp only: v collect_hits.simps(1) simp_thms)
  have c: "query_row_of_line spaced_line
       = Some \<lparr> qr_gene = ''gene1'', qr_start = ''subj1'', qr_stop = ''95.0'',
                qr_strand = ''300'', qr_annotation = Some ''88.0 1e-20 extra more'' \<rparr>"
    using T [THEN conjunct2, THEN conjunct1] s(2) by (simp only: v simp_thms)
  have d: "query_rows [spaced_query_line]
       = [\<lparr> qr_gene = ''gene1'', qr_start = ''100'', qr_stop = ''200'', qr_strand = ''+'',
            qr_annotation = Some ''putative ABC transporter'' \<rparr>]"
    using T [THEN conjunct2, THEN conjunct2] qh by (simp only: r v query_rows.simps(1) simp_thms)
  have p: "parse_file spaced_report
       = ([\<lparr> qr_gene = ''gene1'', qr_start = ''100'', qr_stop = ''200'', qr_strand = ''+'',
             qr_annotation = Some ''putative ABC transporter'' \<rparr>],
          [\<lparr> BCG_identifier = Some ''BGC0001089'', BCG_name = Some ''bacillaene'',
             BCG_type = Some ''NRPS'', proteins_with_blast_hits = Some ''3'',
             cum_BLAST_Score = Some ''1200'', query_gene = ''gene1'',
             subject_gene = ''subj1'', pct_identity = ''95.0'', blast_score = ''300'',
             pct_coverage = ''88.0'', evalue = ''1e-20'' \<rparr>])"
    by code_simp
  from t n a b c qt qn d p show ?thesis by blast
qed

subsection \<open>A report without block markers\<close>

lemma marker_indices_empty:
  "\<forall>ln \<in> set lines. \<not> P (strip ln) \<Longrightarrow> marker_indices P lines = []"
  by (auto simp: marker_indices_def filter_empty_conv)

text \<open>
  Claim C8. When no line of the report starts a block, neither by \<open>>>\<close> nor by the
  ordinal pattern, \<open>parse_file\<close> returns no hit and nothing is written for the report:
  no results table and no table of unmatched rows.
\<close>

theorem no_markers_no_output:
  assumes "\<forall>ln \<in> set (splitlines text).
             \<not> startswith (strip ln) ''>>'' \<and> \<not> match_ordinal_bgc (strip ln)"
  shows "snd (parse_file text) = [] \<and> process_txt fname text = []"
proof -
  from assms have "primary_starts (splitlines text) = []"
    and "fallback_starts (splitlines text) = []"
    by (simp_all add: primary_starts_def fallback_starts_def marker_indices_empty)
  then have "cluster_blocks (splitlines text) = []"
    by (simp add: cluster_blocks_def block_starts_def)
  then have "snd (parse_file text) = []"
    by (simp add: parse_file_def parse_lines_def renormalize_hits_def)
  then show ?thesis
    by (simp add: process_txt_def)
qed

theorem no_markers_no_output_witness:
  "list_all (\<lambda>ln. \<not> startswith (strip ln) ''>>'' \<and> \<not> match_ordinal_bgc (strip ln))
     (splitlines markerless_text)
   \<and> length (splitlines markerless_text) = 3
   \<and> snd (parse_file markerless_text) = []
   \<and> process_txt ''region1.txt'' markerless_text = []"
proof -
  have l: "list_all (\<lambda>ln. \<not> startswith (strip ln) ''>>'' \<and> \<not> match_ordinal_bgc (strip ln))
     (splitlines markerless_text)"
    by code_simp
  then have h: "\<forall>ln \<in> set (splitlines markerless_text).
      \<not> startswith (strip ln) ''>>'' \<and> \<not> match_ordinal_bgc (strip ln)"
    by (simp add: list_all_iff)
  have n: "length (splitlines markerless_text) = 3"
    by code_simp
  show ?thesis
    using l n no_markers_no_output [OF h, of "''region1.txt''"] by blast
qed

subsection \<open>The header fields of a block\<close>

lemma first_match_append:
  "first_match f (xs @ [x]) = (case first_match f xs of Some v \<Rightarrow> Some v | None \<Rightarrow> f x)"
  by (induction xs) (auto split: option.splits)

lemma last_match_snoc:
  "last_match f (xs @ [x]) = (case f x of Some v \<Rightarrow> Some v | None \<Rightarrow> last_match f xs)"
  by (simp add: last_match_def split: option.split)

lemma first_match_in: "first_match f xs = Some v \<Longrightarrow> \<exists>x \<in> set xs. f x = Some v"
  by (induction xs) (auto split: option.splits)

lemma after_first_prefix:
  "startswith s p \<Longrightarrow> p \<noteq> [] \<Longrightarrow> after_first p s = Some (drop (length p) s)"
  by (cases s) (auto simp: startswith_def)

lemma after_first_colon_proteins:
  assumes "startswith s ''Number of proteins with BLAST hits to this cluster:''"
  shows "after_first '':'' s
           = Some (drop (length ''Number of proteins with BLAST hits to this cluster:'') s)"
proof -
  from assms have "s = ''Number of proteins with BLAST hits to this cluster:''
      @ drop (length ''Number of proteins with BLAST hits to this cluster:'') s"
    unfolding startswith_def by (metis append_take_drop_id)
  then obtain r where "s = ''Number of proteins with BLAST hits to this cluster:'' @ r"
    and "drop (length ''Number of proteins with BLAST hits to this cluster:'') s = r"
    by (metis append_eq_conv_conj)
  then show ?thesis by (simp add: startswith_def)
qed

lemma after_first_colon_score:
  assumes "startswith s ''Cumulative BLAST score:''"
  shows "after_first '':'' s = Some (drop (length ''Cumulative BLAST score:'') s)"
proof -
  from assms have "s = ''Cumulative BLAST score:'' @ drop (length ''Cumulative BLAST score:'') s"
    unfolding startswith_def by (metis append_take_drop_id)
  then obtain r where "s = ''Cumulative BLAST score:'' @ r"
    and "drop (length ''Cumulative BLAST score:'') s = r"
    by (metis append_eq_conv_conj)
  then show ?thesis by (simp add: startswith_def)
qed

lemma meta_step_source:
  "source_name (meta_step m ln)
     = (case label_value ''Source:'' ln of Some v \<Rightarrow> Some v | None \<Rightarrow> source_name m)"
  unfolding meta_step_def Let_def label_value_def
  by (simp add: after_first_prefix split: option.split)

lemma meta_step_type:
  "bgc_type (meta_step m ln)
     = (case label_value ''Type:'' ln of Some v \<Rightarrow> Some v | None \<Rightarrow> bgc_type m)"
  unfolding meta_step_def Let_def label_value_def
  by (simp add: after_first_prefix split: option.split)

lemma meta_step_proteins:
  "proteins_with_hits (meta_step m ln)
     = (case label_value ''Number of proteins with BLAST hits to this cluster:'' ln of
          Some v \<Rightarrow> Some v | None \<Rightarrow> proteins_with_hits m)"
  unfolding meta_step_def Let_def label_value_def
  by (simp add: after_first_colon_proteins split: option.split)

lemma meta_step_score:
  "cum_score (meta_step m ln)
     = (case label_value ''Cumulative BLAST score:'' ln of
          Some v \<Rightarrow> Some v | None \<Rightarrow> cum_score m)"
  unfolding meta_step_def Let_def label_value_def
  by (simp add: after_first_colon_score split: option.split)

lemma meta_step_bgc_id:
  "bgc_id (meta_step m ln)
     = (case match_bgc (strip ln) of
          Some g \<Rightarrow> Some g
        | None \<Rightarrow>
            (case match_bgc2 (strip ln) of
               Some g \<Rightarrow> if bgc_id m = None \<or> bgc_id m = Some [] then Some g else bgc_id m
             | None \<Rightarrow> bgc_id m))"
proof -
  define m1 where "m1 = (case match_bgc (strip ln) of Some g \<Rightarrow> m\<lparr>bgc_id := Some g\<rparr> | None \<Rightarrow> m)"
  have keep: "bgc_id (if c then x\<lparr>source_name := a\<rparr> else x) = bgc_id x"
    "bgc_id (if c then x\<lparr>bgc_type := a\<rparr> else x) = bgc_id x"
    "bgc_id (if c then x\<lparr>proteins_with_hits := a\<rparr> else x) = bgc_id x"
    "bgc_id (if c then x\<lparr>cum_score := a\<rparr> else x) = bgc_id x"
    for c x a
    by simp_all
  have one: "bgc_id m1 = (case match_bgc (strip ln) of Some g \<Rightarrow> Some g | None \<Rightarrow> bgc_id m)"
    by (simp add: m1_def split: option.split)
  have ne: "match_bgc (strip ln) = Some g \<Longrightarrow> g \<noteq> []" for g
    using match_bgc_shape by blast
  have "bgc_id (meta_step m ln)
      = (case match_bgc2 (strip ln) of
           Some g \<Rightarrow> if bgc_id m1 = None \<or> bgc_id m1 = Some [] then Some g else bgc_id m1
         | None \<Rightarrow> bgc_id m1)"
    unfolding meta_step_def Let_def m1_def [symmetric]
    by (simp add: keep option.case_distrib [of bgc_id] if_distrib [of bgc_id]
        split del: if_split cong: option.case_cong if_cong)
  then show ?thesis
    using ne by (cases "match_bgc (strip ln)") (auto simp: one split: option.split)
qed

lemma foldl_meta_step_field:
  assumes "\<And>m ln. fld (meta_step m ln) = (case f ln of Some v \<Rightarrow> Some v | None \<Rightarrow> fld m)"
  shows "fld (foldl meta_step m ls) = (case last_match f ls of Some v \<Rightarrow> Some v | None \<Rightarrow> fld m)"
proof (induction ls rule: rev_induct)
  case Nil
  then show ?case by (simp add: last_match_def)
next
  case (snoc x xs)
  then show ?case
    by (simp add: assms last_match_snoc split: option.split)
qed

lemma foldl_meta_step_bgc_id:
  "bgc_id (foldl meta_step m ls)
     = (case last_match (\<lambda>ln. match_bgc (strip ln)) ls of
          Some g \<Rightarrow> Some g
        | None \<Rightarrow>
            if bgc_id m = None \<or> bgc_id m = Some []
            then (case first_match (\<lambda>ln. match_bgc2 (strip ln)) ls of
                    Some g \<Rightarrow> Some g | None \<Rightarrow> bgc_id m)
            else bgc_id m)"
proof (induction ls rule: rev_induct)
  case Nil
  then show ?case by (simp add: last_match_def)
next
  case (snoc x xs)
  have ne1: "last_match (\<lambda>ln. match_bgc (strip ln)) xs = Some g \<Longrightarrow> g \<noteq> []" for g
    unfolding last_match_def using first_match_in match_bgc_shape by fastforce
  have ne2: "first_match (\<lambda>ln. match_bgc2 (strip ln)) xs = Some g \<Longrightarrow> g \<noteq> []" for g
    using first_match_in match_bgc2_shape by fastforce
  show ?case
  proof (cases "match_bgc (strip x)")
    case (Some g)
    then show ?thesis
      by (simp add: meta_step_bgc_id last_match_snoc)
  next
    case None
    note mb = None
    show ?thesis
    proof (cases "last_match (\<lambda>ln. match_bgc (strip ln)) xs")
      case (Some g)
      with mb snoc ne1 [of g] show ?thesis
        by (simp add: meta_step_bgc_id last_match_snoc split: option.split)
    next
      case None
      note lm = None
      show ?thesis
      proof (cases "first_match (\<lambda>ln. match_bgc2 (strip ln)) xs")
        case None
        with mb lm snoc show ?thesis
          by (auto simp: meta_step_bgc_id last_match_snoc first_match_append split: option.split)
      next
        case (Some g)
        with mb lm snoc ne2 [of g] show ?thesis
          by (auto simp: meta_step_bgc_id last_match_snoc first_match_append split: option.split)
      qed
    qed
  qed
qed

text \<open>
  Claim C2 (amended). Of the first 15 lines of a block, the cluster name, the cluster
  type, the protein-hit count and the cumulative score are each taken from the last
  line that starts with the field's label: a later matching line within the window
  replaces the value of an earlier one. The cluster identifier is the one of the last
  line matching the first identifier pattern; only when no line of the window matches
  it, the identifier is the one of the first line matching the second pattern.
\<close>

theorem header_fields_last_match:
  "source_name (block_metadata block) = last_match (label_value ''Source:'') (take 15 block)
   \<and> bgc_type (block_metadata block) = last_match (label_value ''Type:'') (take 15 block)
   \<and> proteins_with_hits (block_metadata block)
       = last_match (label_value ''Number of proteins with BLAST hits to this cluster:'')
           (take 15 block)
   \<and> cum_score (block_metadata block)
       = last_match (label_value ''Cumulative BLAST score:'') (take 15 block)
   \<and> bgc_id (block_metadata block)
       = (case last_match (\<lambda>ln. match_bgc (strip ln)) (take 15 block) of
            Some g \<Rightarrow> Some g
          | None \<Rightarrow> first_match (\<lambda>ln. match_bgc2 (strip ln)) (take 15 block))"
proof -
  have a: "source_name (block_metadata block) = last_match (label_value ''Source:'') (take 15 block)"
    unfolding block_metadata_def
    by (subst foldl_meta_step_field [where f = "label_value ''Source:''"])
      (simp_all add: meta_step_source no_meta_def split: option.split)
  have b: "bgc_type (block_metadata block) = last_match (label_value ''Type:'') (take 15 block)"
    unfolding block_metadata_def
    by (subst foldl_meta_step_field [where f = "label_value ''Type:''"])
      (simp_all add: meta_step_type no_meta_def split: option.split)
  have c: "proteins_with_hits (block_metadata block)
       = last_match (label_value ''Number of proteins with BLAST hits to this cluster:'')
           (take 15 block)"
    unfolding block_metadata_def
    by (subst foldl_meta_step_field
        [where f = "label_value ''Number of proteins with BLAST hits to this cluster:''"])
      (simp_all add: meta_step_proteins no_meta_def split: option.split)
  have d: "cum_score (block_metadata block)
       = last_match (label_value ''Cumulative BLAST score:'') (take 15 block)"
    unfolding block_metadata_def
    by (subst foldl_meta_step_field [where f = "label_value ''Cumulative BLAST score:''"])
      (simp_all add: meta_step_score no_meta_def split: option.split)
  have e: "bgc_id (block_metadata block)
       = (case last_match (\<lambda>ln. match_bgc (strip ln)) (take 15 block) of
            Some g \<Rightarrow> Some g
          | None \<Rightarrow> first_match (\<lambda>ln. match_bgc2 (strip ln)) (take 15 block))"
    unfolding block_metadata_def foldl_meta_step_bgc_id
    by (simp add: no_meta_def split: option.split)
  show ?thesis
    by (intro conjI; fact)
qed

theorem header_fields_last_match_witness:
  "source_name (block_metadata repeated_header_block) = Some ''second''
   \<and> bgc_type (block_metadata repeated_header_block) = Some ''PKS''
   \<and> proteins_with_hits (block_metadata repeated_header_block) = Some ''7''
   \<and> cum_score (block_metadata repeated_header_block) = Some ''20''
   \<and> bgc_id (block_metadata repeated_header_block) = Some ''BGC0000002''
   \<and> bgc_id (block_metadata fallback_id_block) = Some ''BGC-7''
   \<and> source_name (block_metadata late_source_block) = None"
proof -
  have v: "last_match (label_value ''Source:'') (take 15 repeated_header_block) = Some ''second''"
    "last_match (label_value ''Type:'') (take 15 repeated_header_block) = Some ''PKS''"
    "last_match (label_value ''Number of proteins with BLAST hits to this cluster:'')
       (take 15 repeated_header_block) = Some ''7''"
    "last_match (label_value ''Cumulative BLAST score:'') (take 15 repeated_header_block)
       = Some ''20''"
    "last_match (\<lambda>ln. match_bgc (strip ln)) (take 15 repeated_header_block)
       = Some ''BGC0000002''"
    "last_match (\<lambda>ln. match_bgc (strip ln)) (take 15 fallback_id_block) = None"
    "first_match (\<lambda>ln. match_bgc2 (strip ln)) (take 15 fallback_id_block) = Some ''BGC-7''"
    "last_match (label_value ''Source:'') (take 15 late_source_block) = None"
    by code_simp+
  show ?thesis
    using header_fields_last_match [of repeated_header_block]
      header_fields_last_match [of fallback_id_block]
      header_fields_last_match [of late_source_block]
    by (simp add: v)
qed

text \<open>
  The claim as the specification states it fails on a block whose header lines occur
  twice within the window: every field has the value of the second line, not of the
  first.
\<close>

theorem first_header_match_counterexample:
  "source_name (block_metadata repeated_header_block) = Some ''second''
   \<and> first_match (label_value ''Source:'') (take 15 repeated_header_block) = Some ''first''
   \<and> bgc_type (block_metadata repeated_header_block) = Some ''PKS''
   \<and> first_match (label_value ''Type:'') (take 15 repeated_header_block) = Some ''NRPS''
   \<and> proteins_with_hits (block_metadata repeated_header_block) = Some ''7''
   \<and> first_match (label_value ''Number of proteins with BLAST hits to this cluster:'')
        (take 15 repeated_header_block) = Some ''3''
   \<and> cum_score (block_metadata repeated_header_block) = Some ''20''
   \<and> first_match (label_value ''Cumulative BLAST score:'') (take 15 repeated_header_block)
       = Some ''10''
   \<and> bgc_id (block_metadata repeated_header_block) = Some ''BGC0000002''
   \<and> first_match (\<lambda>ln. match_bgc (strip ln)) (take 15 repeated_header_block)
       = Some ''BGC0000001''"
  by code_simp

subsection \<open>The region tag\<close>

lemma no_pattern_at:
  "\<not> has_region_pattern s \<Longrightarrow> i < length s \<Longrightarrow> region_group (drop i s) = None"
  unfolding has_region_pattern_def list_ex_iff by fastforce

lemma no_pattern_tl:
  assumes "\<not> has_region_pattern s"
  shows "\<not> has_region_pattern (drop k s)"
proof -
  have "region_group (drop i (drop k s)) = None" if "i < length (drop k s)" for i
  proof -
    from that have "k + i < length s" by simp
    with assms have "region_group (drop (k + i) s) = None"
      by (rule no_pattern_at)
    then show ?thesis by (simp add: add.commute)
  qed
  then show ?thesis
    unfolding has_region_pattern_def list_ex_iff by fastforce
qed

lemma find_region_none: "\<not> has_region_pattern s \<Longrightarrow> find_region s = None"
proof (induction s)
  case Nil
  then show ?case by simp
next
  case (Cons c cs)
  from Cons.prems have "region_group (c # cs) = None"
    using no_pattern_at [of "c # cs" 0] by simp
  moreover from Cons.prems have "\<not> has_region_pattern cs"
    using no_pattern_tl [of "c # cs" 1] by simp
  ultimately show ?case using Cons.IH by simp
qed

lemma region_sub_unchanged: "\<not> has_region_pattern s \<Longrightarrow> region_sub s = s"
proof (induction s rule: region_sub.induct)
  case (1 s)
  show ?case
  proof (cases "s = []")
    case True
    then show ?thesis by (simp add: region_sub.simps)
  next
    case False
    have fr: "find_region s = None" using "1.prems" by (rule find_region_none)
    show ?thesis
    proof (cases "dropWhile (\<lambda>c. c \<noteq> LF) s")
      case Nil
      with False fr show ?thesis
        by (simp only: region_sub.simps [of s] if_False option.case list.case)
    next
      case (Cons c r)
      have "r = drop (Suc (length (takeWhile (\<lambda>c. c \<noteq> LF) s))) s"
        using Cons by (metis drop_Suc dropWhile_eq_drop list.sel(3) tl_drop)
      then have "\<not> has_region_pattern r"
        using "1.prems" no_pattern_tl by metis
      then have "region_sub r = r"
        using "1.IH"(1) [OF False fr Cons] by simp
      then have "region_sub s = takeWhile (\<lambda>c. c \<noteq> LF) s @ c # r"
        using False fr Cons
        by (simp only: region_sub.simps [of s] if_False option.case list.case)
      also have "\<dots> = s"
        using Cons by (metis takeWhile_dropWhile_id)
      finally show ?thesis .
    qed
  qed
qed

lemma merge_hit_region: "r \<in> set (merge_hit reg qs h) \<Longrightarrow> region r = reg"
  by (cases "filter (\<lambda>q. qr_gene q = query_gene h) qs") (auto simp: merge_hit_def)

lemma merge_left_region: "r \<in> set (merge_left reg hs qs) \<Longrightarrow> region r = reg"
  by (auto simp: merge_left_def dest: merge_hit_region)

lemma merged_of_file_region: "r \<in> set (merged_of_file fname text) \<Longrightarrow> region r = region_clean fname"
  by (auto simp: merged_of_file_def dest: merge_left_region)

text \<open>
  Claim C10. When the group of the region pattern matches nowhere in the name of a
  report file, the region tag of every merged row of that file is the whole file name
  without its leading underscores; for a name ending in \<open>.txt\<close> it is not empty.
\<close>

theorem region_tag_without_pattern:
  assumes "\<not> has_region_pattern fname"
  shows "region_clean fname = lstrip_chars ''_'' fname
         \<and> (\<forall>r \<in> set (merged_of_file fname text). region r = lstrip_chars ''_'' fname)
         \<and> (\<forall>stem. fname = stem @ ''.txt'' \<longrightarrow> region_clean fname \<noteq> [])"
proof -
  have rs: "region_sub fname = fname" using assms by (rule region_sub_unchanged)
  then have rc: "region_clean fname = lstrip_chars ''_'' fname"
    by (simp add: region_clean_def lstrip_chars_def)
  have ne: "lstrip_chars ''_'' (stem @ ''.txt'') \<noteq> []" for stem
    by (simp add: lstrip_chars_def dropWhile_eq_Nil_conv)
  have a: "\<forall>r \<in> set (merged_of_file fname text). region r = lstrip_chars ''_'' fname"
    using merged_of_file_region [of _ fname "text"] rc by simp
  have b: "\<forall>stem. fname = stem @ ''.txt'' \<longrightarrow> region_clean fname \<noteq> []"
  proof (intro allI impI)
    fix stem
    assume "fname = stem @ ''.txt''"
    then show "region_clean fname \<noteq> []"
      using rc ne [of stem] by simp
  qed
  from rc a b show ?thesis by blast
qed

theorem region_tag_without_pattern_witness:
  "\<not> has_region_pattern ''__report.txt''
   \<and> region_clean ''__report.txt'' = ''report.txt''
   \<and> map region (merged_of_file ''__report.txt'' sample_report) = [''report.txt'', ''report.txt'']"
proof -
  have h: "\<not> has_region_pattern ''__report.txt''" by code_simp
  have l: "lstrip_chars ''_'' ''__report.txt'' = ''report.txt''" by code_simp
  have n: "length (merged_of_file ''__report.txt'' sample_report) = 2" by code_simp
  have "\<forall>r \<in> set (merged_of_file ''__report.txt'' sample_report). region r = ''report.txt''"
    and rc: "region_clean ''__report.txt'' = ''report.txt''"
    using region_tag_without_pattern [OF h, of sample_report] unfolding l by blast+
  then have "map region (merged_of_file ''__report.txt'' sample_report)
      = replicate (length (merged_of_file ''__report.txt'' sample_report)) ''report.txt''"
    by (simp add: map_replicate_const [symmetric] cong: map_cong)
  then have "map region (merged_of_file ''__report.txt'' sample_report) = [''report.txt'', ''report.txt'']"
    by (simp only: n) (simp add: numeral_2_eq_2)
  with h rc show ?thesis by blast
qed

subsection \<open>The table of unmatched rows\<close>

lemma merge_hit_indicator:
  "r \<in> set (merge_hit reg qs h) \<Longrightarrow>
   (merge_indicator r = left_only) = (query_gene (m_hit r) \<notin> qr_gene ` set qs)"
proof (cases "filter (\<lambda>q. qr_gene q = query_gene h) qs")
  case Nil
  assume "r \<in> set (merge_hit reg qs h)"
  with Nil have r: "merge_indicator r = left_only" "m_hit r = h"
    by (auto simp: merge_hit_def)
  from Nil have "query_gene h \<notin> qr_gene ` set qs"
    by (auto simp: filter_empty_conv)
  with r show ?thesis by simp
next
  case (Cons q ms)
  assume "r \<in> set (merge_hit reg qs h)"
  with Cons have r: "merge_indicator r = both" "m_hit r = h"
    by (auto simp: merge_hit_def)
  have "q \<in> set (filter (\<lambda>q. qr_gene q = query_gene h) qs)"
    using Cons by simp
  then have "query_gene h \<in> qr_gene ` set qs"
    by force
  with r show ?thesis by simp
qed

lemma merge_left_indicator:
  "r \<in> set (merge_left reg hs qs) \<Longrightarrow>
   (merge_indicator r = left_only) = (query_gene (m_hit r) \<notin> qr_gene ` set qs)"
  by (auto simp: merge_left_def dest: merge_hit_indicator)

lemma merged_empty_without_hits:
  "snd (parse_file text) = [] \<Longrightarrow> merged_of_file fname text = []"
  by (simp add: merged_of_file_def merge_left_def renormalize_hits_def)

text \<open>
  Claim C9 (amended). A merged row is unmatched exactly when no row of the query table
  has its gene id. The file of unmatched rows is written exactly when there is an
  unmatched row; it then holds the unmatched rows of the merged table, in the columns of
  the results table followed by one more column, \<open>_merge\<close>, whose value is
  \<open>left_only\<close> in every row.
\<close>

theorem unmatched_rows_file:
  "(\<forall>r \<in> set (merged_of_file fname text).
      (merge_indicator r = left_only)
        = (query_gene (m_hit r) \<notin> qr_gene ` set (query_sub text)))
   \<and> file_written (fname @ ''.unmatched_rows.csv'') (process_txt fname text)
     = (unmatched_rows fname text \<noteq> [])
   \<and> (unmatched_rows fname text \<noteq> [] \<longrightarrow>
        process_txt fname text =
          [\<lparr> of_name = fname @ ''.unmatched_rows.csv'',
              of_columns = result_columns @ [''_merge''],
              of_rows = map (\<lambda>r. result_cells r @ [Some ''left_only''])
                          (unmatched_rows fname text) \<rparr>,
           \<lparr> of_name = fname @ ''.results.tsv'',
              of_columns = result_columns,
              of_rows = map result_cells (merged_of_file fname text) \<rparr>])"
proof -
  have cells: "map merged_cells (unmatched_rows fname text)
      = map (\<lambda>r. result_cells r @ [Some ''left_only'']) (unmatched_rows fname text)"
    by (rule map_cong) (auto simp: unmatched_rows_def merged_cells_def)
  have ind: "\<forall>r \<in> set (merged_of_file fname text).
      (merge_indicator r = left_only)
        = (query_gene (m_hit r) \<notin> qr_gene ` set (query_sub text))"
    unfolding merged_of_file_def using merge_left_indicator by blast
  have "file_written (fname @ ''.unmatched_rows.csv'') (process_txt fname text)
     = (unmatched_rows fname text \<noteq> [])
   \<and> (unmatched_rows fname text \<noteq> [] \<longrightarrow>
        process_txt fname text =
          [\<lparr> of_name = fname @ ''.unmatched_rows.csv'',
              of_columns = result_columns @ [''_merge''],
              of_rows = map (\<lambda>r. result_cells r @ [Some ''left_only''])
                          (unmatched_rows fname text) \<rparr>,
           \<lparr> of_name = fname @ ''.results.tsv'',
              of_columns = result_columns,
              of_rows = map result_cells (merged_of_file fname text) \<rparr>])"
  proof (cases "snd (parse_file text) = []")
    case True
    then have "unmatched_rows fname text = []"
      by (simp add: unmatched_rows_def merged_empty_without_hits)
    with True show ?thesis
      by (simp add: process_txt_def file_written_def)
  next
    case False
    then show ?thesis
      using cells
      by (simp add: process_txt_def Let_def file_written_def unmatched_rows_def [symmetric]
          merged_columns_def)
  qed
  with ind show ?thesis by blast
qed

theorem unmatched_rows_file_witness:
  "map (\<lambda>r. query_gene (m_hit r)) (merged_of_file ''r_c1.txt'' sample_report)
     = [''geneA'', ''geneX'']
   \<and> map qr_gene (query_sub sample_report) = [''geneA'']
   \<and> map merge_indicator (merged_of_file ''r_c1.txt'' sample_report) = [both, left_only]
   \<and> unmatched_rows ''r_c1.txt'' sample_report \<noteq> []
   \<and> file_written ''r_c1.txt.unmatched_rows.csv'' (process_txt ''r_c1.txt'' sample_report)
   \<and> process_txt ''r_c1.txt'' sample_report =
        [\<lparr> of_name = ''r_c1.txt.unmatched_rows.csv'',
            of_columns = result_columns @ [''_merge''],
            of_rows = map (\<lambda>r. result_cells r @ [Some ''left_only''])
                        (unmatched_rows ''r_c1.txt'' sample_report) \<rparr>,
         \<lparr> of_name = ''r_c1.txt.results.tsv'',
            of_columns = result_columns,
            of_rows = map result_cells (merged_of_file ''r_c1.txt'' sample_report) \<rparr>]"
proof -
  have g: "map (\<lambda>r. query_gene (m_hit r)) (merged_of_file ''r_c1.txt'' sample_report)
     = [''geneA'', ''geneX'']"
    by code_simp
  have q: "map qr_gene (query_sub sample_report) = [''geneA'']"
    by code_simp
  have i: "map merge_indicator (merged_of_file ''r_c1.txt'' sample_report) = [both, left_only]"
    by code_simp
  have u: "unmatched_rows ''r_c1.txt'' sample_report \<noteq> []"
    by code_simp
  show ?thesis
    using unmatched_rows_file [of "''r_c1.txt''" sample_report] g q i u
    by (simp add: file_written_def)
qed

text \<open>
  The claim as the specification states it fails on the sample report: the file of
  unmatched rows has 17 columns, the results table 16.
\<close>

theorem unmatched_file_columns_counterexample:
  "map of_name (process_txt ''r_c1.txt'' sample_report)
     = [''r_c1.txt.unmatched_rows.csv'', ''r_c1.txt.results.tsv'']
   \<and> map of_columns (process_txt ''r_c1.txt'' sample_report)
       = [result_columns @ [''_merge''], result_columns]
   \<and> map (\<lambda>f. length (of_columns f)) (process_txt ''r_c1.txt'' sample_report) = [17, 16]
   \<and> map (\<lambda>f. map length (of_rows f)) (process_txt ''r_c1.txt'' sample_report)
       = [[17], [16, 16]]"
  by code_simp

subsection \<open>The cardinality of the merge\<close>

lemma drop_duplicates_seen_fresh:
  "x \<in> set (drop_duplicates_seen seen rows) \<Longrightarrow> qr_gene x \<notin> set seen"
proof (induction rows arbitrary: seen)
  case Nil
  then show ?case by simp
next
  case (Cons r rows)
  show ?case
  proof (cases "qr_gene r \<in> set seen")
    case True
    with Cons show ?thesis by simp
  next
    case False
    with Cons.prems have "x = r \<or> x \<in> set (drop_duplicates_seen (qr_gene r # seen) rows)"
      by simp
    then show ?thesis
      using False Cons.IH [of "qr_gene r # seen"] by auto
  qed
qed

lemma drop_duplicates_seen_distinct:
  "distinct (map qr_gene (drop_duplicates_seen seen rows))"
  by (induction rows arbitrary: seen) (auto dest: drop_duplicates_seen_fresh)

lemma merge_hit_length:
  "distinct (map qr_gene qs) \<Longrightarrow> length (merge_hit reg qs h) = 1"
proof -
  assume d: "distinct (map qr_gene qs)"
  have "length (filter (\<lambda>q. qr_gene q = query_gene h) qs) \<le> 1"
    using d
  proof (induction qs)
    case Nil
    then show ?case by simp
  next
    case (Cons q qs)
    show ?case
    proof (cases "qr_gene q = query_gene h")
      case True
      with Cons.prems have "query_gene h \<notin> qr_gene ` set qs"
        by simp
      then have "filter (\<lambda>q. qr_gene q = query_gene h) qs = []"
        unfolding filter_empty_conv by force
      with True show ?thesis by simp
    next
      case False
      with Cons show ?thesis by simp
    qed
  qed
  then show ?thesis
    by (cases "filter (\<lambda>q. qr_gene q = query_gene h) qs") (auto simp: merge_hit_def)
qed

text \<open>Joined with the de-duplicated query table, every hit gives exactly one row.\<close>

lemma merge_left_one_row_per_hit:
  "length (merge_left reg hs (drop_duplicates qs)) = length hs"
proof -
  have d: "distinct (map qr_gene (drop_duplicates qs))"
    unfolding drop_duplicates_def by (rule drop_duplicates_seen_distinct)
  show ?thesis
    unfolding merge_left_def length_concat
    by (simp add: merge_hit_length [OF d] comp_def sum_list_triv)
qed

text \<open>
  Claim C1. \<open>process_sample\<close> normalises the gene ids of the query table once more
  after \<open>drop_duplicates\<close>, and two ids that differed before can be equal after it.
  On the report below the query ids are \<open>a<US>\<close> and \<open>a\<close> when the duplicates are
  dropped and \<open>a\<close> twice when the tables are merged: the one hit gives two merged
  rows.
\<close>

theorem merge_row_count_after_renormalisation:
  "length (snd (parse_file duplicate_key_report)) = 1
   \<and> map qr_gene (fst (parse_file duplicate_key_report)) = [''a'' @ [CHR 0x1F], ''a'']
   \<and> map qr_gene (drop_duplicates (fst (parse_file duplicate_key_report)))
       = [''a'' @ [CHR 0x1F], ''a'']
   \<and> map qr_gene (query_sub duplicate_key_report) = [''a'', ''a'']
   \<and> length (merged_of_file ''r_c1.txt'' duplicate_key_report) = 2
   \<and> map (\<lambda>f. length (of_rows f)) (process_txt ''r_c1.txt'' duplicate_key_report) = [2]"
  by code_simp

subsection \<open>Normalisation of gene ids\<close>

lemma set_rstrip_chars: "set (rstrip_chars cs s) \<subseteq> set s"
  unfolding rstrip_chars_def using set_dropWhileD [of _ _ "rev s"] by auto

lemma rstrip_chars_last:
  "rstrip_chars cs s = [] \<or> last (rstrip_chars cs s) \<notin> set cs"
proof (cases "dropWhile (\<lambda>c. c \<in> set cs) (rev s)")
  case Nil
  then show ?thesis by (simp add: rstrip_chars_def)
next
  case (Cons y ys)
  then have "\<not> y \<in> set cs"
    using hd_dropWhile [of "\<lambda>c. c \<in> set cs" "rev s"] by simp
  with Cons show ?thesis by (simp add: rstrip_chars_def)
qed

text \<open>The result has no CR, LF or TAB and no quote, and does not end in a space, a
  comma, a semicolon or a colon.\<close>

lemma normalize_gene_id_result:
  "CR \<notin> set (normalize_gene_id s) \<and> LF \<notin> set (normalize_gene_id s)
   \<and> TAB \<notin> set (normalize_gene_id s)
   \<and> DQUOTE \<notin> set (normalize_gene_id s) \<and> SQUOTE \<notin> set (normalize_gene_id s)
   \<and> (normalize_gene_id s = [] \<or> last (normalize_gene_id s) \<notin> set '' ,;:'')"
proof -
  have "set (normalize_gene_id s)
      \<subseteq> set (remove_char SQUOTE (remove_char DQUOTE (remove_crlftab (strip s))))"
    unfolding normalize_gene_id_def by (rule set_rstrip_chars)
  then have "set (normalize_gene_id s) \<inter> {CR, LF, TAB, DQUOTE, SQUOTE} = {}"
    by (auto simp: remove_char_def remove_crlftab_def)
  moreover have "normalize_gene_id s = [] \<or> last (normalize_gene_id s) \<notin> set '' ,;:''"
    unfolding normalize_gene_id_def by (rule rstrip_chars_last)
  ultimately show ?thesis by blast
qed

text \<open>
  Claim C3. \<open>strip\<close> runs before the quotes and the trailing punctuation are removed,
  so whitespace that stood behind them stays: the id made of a quote, a space and \<open>a\<close>
  is normalised to a space and \<open>a\<close>, which a second normalisation turns into \<open>a\<close>.
  The example of the specification is normalised to \<open>geneA_1\<close>.
\<close>

theorem normalize_gene_id_not_idempotent:
  "normalize_gene_id ([SQUOTE] @ '' a'') = '' a''
   \<and> normalize_gene_id (normalize_gene_id ([SQUOTE] @ '' a'')) = ''a''
   \<and> normalize_gene_id (''a'' @ [CHR 0x1F] @ '','') = ''a'' @ [CHR 0x1F]
   \<and> normalize_gene_id (normalize_gene_id (''a'' @ [CHR 0x1F] @ '','')) = ''a''
   \<and> normalize_gene_id (''  geneA_1'' @ [TAB] @ '','' @ [LF]) = ''geneA_1''"
  by code_simp

end
